theory Spec2Isabelle
  imports Main "HOL-Library.Word"
begin

unbundle bit_operations_syntax

section \<open>Machine types and constants of the platform\<close>

text \<open>
  \<^verbatim>\<open>setup.c\<close> is compiled for Linux on an LP64 machine: \<^verbatim>\<open>unsigned\<close> and \<^verbatim>\<open>int\<close> have
  32 bits, \<^verbatim>\<open>size_t\<close>, \<^verbatim>\<open>unsigned long\<close> and pointers have 64 bits. Arithmetic on the
  word types wraps around as the C arithmetic on unsigned types does. Values of type
  \<^verbatim>\<open>int\<close> that are only passed around (return codes, descriptors) are HOL integers;
  where the source computes with an \<^verbatim>\<open>int\<close>, the model computes on a 32-bit word and
  reads it with \<open>sint\<close>.
\<close>

type_synonym u32 = "32 word"
type_synonym u64 = "64 word"

text \<open>
  The following constants are used by \<^verbatim>\<open>setup.c\<close> by name; their declarations are in
  headers (\<^verbatim>\<open>errno.h\<close>, \<^verbatim>\<open>sys/mman.h\<close>, \<^verbatim>\<open>liburing/io_uring.h\<close>, \<^verbatim>\<open>liburing.h\<close>). The values
  are those of the Linux user-space ABI on x86-64.
\<close>

definition EINVAL :: int where "EINVAL = 22"
definition ENOMEM :: int where "ENOMEM = 12"

definition PROT_READ :: u32 where "PROT_READ = 1"
definition PROT_WRITE :: u32 where "PROT_WRITE = 2"
definition MAP_SHARED :: u32 where "MAP_SHARED = 0x01"
definition MAP_ANONYMOUS :: u32 where "MAP_ANONYMOUS = 0x20"
definition MAP_POPULATE :: u32 where "MAP_POPULATE = 0x8000"
definition MAP_HUGETLB :: u32 where "MAP_HUGETLB = 0x40000"

definition IORING_SETUP_CQSIZE :: u32 where "IORING_SETUP_CQSIZE = 0x8"
definition IORING_SETUP_CLAMP :: u32 where "IORING_SETUP_CLAMP = 0x10"
definition IORING_SETUP_NO_MMAP :: u32 where "IORING_SETUP_NO_MMAP = 0x4000"

definition IORING_FEAT_SINGLE_MMAP :: u32 where "IORING_FEAT_SINGLE_MMAP = 0x1"
definition IORING_FEAT_NATIVE_WORKERS :: u32 where "IORING_FEAT_NATIVE_WORKERS = 0x200"

definition IORING_OFF_SQ_RING :: u64 where "IORING_OFF_SQ_RING = 0"
definition IORING_OFF_CQ_RING :: u64 where "IORING_OFF_CQ_RING = 0x8000000"
definition IORING_OFF_SQES :: u64 where "IORING_OFF_SQES = 0x10000000"

text \<open>The library's own marker bit on a ring handle: memory supplied by the application.
  Nothing below depends on which bit it is.\<close>

definition IORING_INT_FLAG_APP_MEM :: u32 where "IORING_INT_FLAG_APP_MEM = 0x4"

text \<open>\<^verbatim>\<open>sizeof(unsigned)\<close>, \<^verbatim>\<open>sizeof(struct io_uring_sqe)\<close>, \<^verbatim>\<open>sizeof(struct io_uring_cqe)\<close>.\<close>

definition sizeof_unsigned :: u64 where "sizeof_unsigned = 4"
definition sizeof_io_uring_sqe :: u64 where "sizeof_io_uring_sqe = 64"
definition sizeof_io_uring_cqe :: u64 where "sizeof_io_uring_cqe = 16"

text \<open>The constants that \<^verbatim>\<open>setup.c\<close> defines itself.\<close>

definition KERN_MAX_ENTRIES :: u32 where "KERN_MAX_ENTRIES = 32768"
definition KERN_MAX_CQ_ENTRIES :: u32 where "KERN_MAX_CQ_ENTRIES = 2 * KERN_MAX_ENTRIES"
definition KRING_SIZE :: u64 where "KRING_SIZE = 320"
definition huge_page_size :: u64 where "huge_page_size = 2 * 1024 * 1024"

section \<open>Find last set and rounding up to a power of two\<close>

text \<open>The number of binary digits of a natural number: 0 for 0, \<open>k + 1\<close> for
  \<open>2 ^ k \<le> n < 2 ^ (k + 1)\<close>.\<close>

fun bit_len :: "nat \<Rightarrow> nat" where
  "bit_len n = (if n = 0 then 0 else Suc (bit_len (n div 2)))"

declare bit_len.simps [simp del]

text \<open>\<^verbatim>\<open>__builtin_clz\<close> on a 32-bit operand: the number of leading zero bits. (The
  compiler leaves the result at 0 undefined; the source tests for 0 before it calls it.)\<close>

definition builtin_clz :: "u32 \<Rightarrow> nat" where
  "builtin_clz x = 32 - bit_len (unat x)"

text \<open>\<^verbatim>\<open>static inline int __fls(int x)\<close>\<close>

definition fls :: "u32 \<Rightarrow> nat" where
  "fls x = (if x = 0 then 0 else 8 * 4 - builtin_clz x)"

text \<open>\<^verbatim>\<open>static unsigned roundup_pow2(unsigned depth)\<close>: the shift is done on an
  \<^verbatim>\<open>unsigned long\<close>, the result is cut to 32 bits.\<close>

definition roundup_pow2 :: "u32 \<Rightarrow> u32" where
  "roundup_pow2 depth = ucast (push_bit (fls (depth - 1)) (1 :: u64))"

section \<open>The parameter block and the ring handle\<close>

text \<open>\<^verbatim>\<open>struct io_sqring_offsets\<close>, \<^verbatim>\<open>struct io_cqring_offsets\<close> and
  \<^verbatim>\<open>struct io_uring_params\<close>, with the fields \<^verbatim>\<open>setup.c\<close> reads or writes.\<close>

record io_sqring_offsets =
  sqo_head :: u32
  sqo_tail :: u32
  sqo_ring_mask :: u32
  sqo_ring_entries :: u32
  sqo_flags :: u32
  sqo_dropped :: u32
  sqo_array :: u32
  sqo_user_addr :: u64

record io_cqring_offsets =
  cqo_head :: u32
  cqo_tail :: u32
  cqo_ring_mask :: u32
  cqo_ring_entries :: u32
  cqo_overflow :: u32
  cqo_cqes :: u32
  cqo_flags :: u32
  cqo_user_addr :: u64

record io_uring_params =
  sq_entries :: u32
  cq_entries :: u32
  flags :: u32
  features :: u32
  sq_off :: io_sqring_offsets
  cq_off :: io_cqring_offsets

section \<open>Depth negotiation\<close>

text \<open>
  \<^verbatim>\<open>static int get_sq_cq_entries(unsigned entries, struct io_uring_params *p,
                                  unsigned *sq, unsigned *cq)\<close>

  The function gets three pointers. The model takes the contents of the three objects
  before the call and returns the return code together with their contents after the
  call, so that what the function writes is visible.
\<close>

definition get_sq_cq_entries ::
  "u32 \<Rightarrow> io_uring_params \<Rightarrow> u32 \<Rightarrow> u32 \<Rightarrow> int \<times> io_uring_params \<times> u32 \<times> u32" where
  "get_sq_cq_entries entries p sq cq =
    (if entries = 0 then (- EINVAL, p, sq, cq)
     else if entries > KERN_MAX_ENTRIES \<and> flags p AND IORING_SETUP_CLAMP = 0
       then (- EINVAL, p, sq, cq)
     else
       let entries = (if entries > KERN_MAX_ENTRIES then KERN_MAX_ENTRIES else entries);
           entries = roundup_pow2 entries
       in if flags p AND IORING_SETUP_CQSIZE \<noteq> 0 then
            if cq_entries p = 0 then (- EINVAL, p, sq, cq)
            else
              let cq_entries = cq_entries p in
              if cq_entries > KERN_MAX_CQ_ENTRIES \<and> flags p AND IORING_SETUP_CLAMP = 0
                then (- EINVAL, p, sq, cq)
              else
                let cq_entries = (if cq_entries > KERN_MAX_CQ_ENTRIES
                                  then KERN_MAX_CQ_ENTRIES else cq_entries);
                    cq_entries = roundup_pow2 cq_entries
                in if cq_entries < entries then (- EINVAL, p, sq, cq)
                   else (0, p, entries, cq_entries)
          else
            let cq_entries = 2 * entries
            in (0, p, entries, cq_entries))"

text \<open>\<^verbatim>\<open>memset(&p, 0, sizeof(p))\<close> and \<^verbatim>\<open>struct io_uring_params lp = { }\<close>\<close>

definition zero_sq_off :: io_sqring_offsets where
  "zero_sq_off = \<lparr>sqo_head = 0, sqo_tail = 0, sqo_ring_mask = 0, sqo_ring_entries = 0,
                  sqo_flags = 0, sqo_dropped = 0, sqo_array = 0, sqo_user_addr = 0\<rparr>"

definition zero_cq_off :: io_cqring_offsets where
  "zero_cq_off = \<lparr>cqo_head = 0, cqo_tail = 0, cqo_ring_mask = 0, cqo_ring_entries = 0,
                  cqo_overflow = 0, cqo_cqes = 0, cqo_flags = 0, cqo_user_addr = 0\<rparr>"

definition zero_params :: io_uring_params where
  "zero_params = \<lparr>sq_entries = 0, cq_entries = 0, flags = 0, features = 0,
                   sq_off = zero_sq_off, cq_off = zero_cq_off\<rparr>"

section \<open>The layout calculator\<close>

text \<open>
  \<^verbatim>\<open>static size_t npages(size_t size, unsigned page_size)\<close>

  The parameter \<^verbatim>\<open>size\<close> is \<open>sz\<close> here; \<^verbatim>\<open>size--\<close> wraps around at 0. The quotient is passed to \<^verbatim>\<open>__fls\<close>, whose parameter is an
  \<^verbatim>\<open>int\<close>: the low 32 bits are kept. A division by zero does not return in C; the model
  returns \<open>None\<close> there.
\<close>

definition npages :: "u64 \<Rightarrow> u32 \<Rightarrow> nat option" where
  "npages sz page_size =
    (if page_size = 0 then None
     else let sz = sz - 1;
              sz = sz div ucast page_size
          in Some (fls (ucast sz)))"

text \<open>\<^verbatim>\<open>static size_t rings_size(unsigned entries, unsigned cq_entries, unsigned page_size)\<close>;
  the parameter \<^verbatim>\<open>cq_entries\<close> is \<open>cq_entries'\<close> here, as the name is taken by the field.\<close>

definition rings_size :: "u32 \<Rightarrow> u32 \<Rightarrow> u32 \<Rightarrow> u64 option" where
  "rings_size entries cq_entries' page_size =
    (let cq_size = KRING_SIZE;
         cq_size = cq_size + ucast cq_entries' * sizeof_io_uring_cqe;
         cq_size = (cq_size + 63) AND NOT 63
     in case npages cq_size page_size of
          None \<Rightarrow> None
        | Some n \<Rightarrow>
            let pages = push_bit n (1 :: u64);
                sq_size = sizeof_io_uring_sqe * ucast entries
            in case npages sq_size page_size of
                 None \<Rightarrow> None
               | Some m \<Rightarrow>
                   let pages = pages + push_bit m (1 :: u64)
                   in Some (pages * ucast page_size))"

section \<open>The ring handle\<close>

text \<open>\<^verbatim>\<open>struct io_uring_sq\<close>, \<^verbatim>\<open>struct io_uring_cq\<close> and \<^verbatim>\<open>struct io_uring\<close>, with the
  fields \<^verbatim>\<open>setup.c\<close> reads or writes. Pointers are 64-bit addresses, \<^verbatim>\<open>NULL\<close> is 0.\<close>

record io_uring_sq =
  sq_khead :: u64
  sq_ktail :: u64
  sq_kring_mask :: u64
  sq_kring_entries :: u64
  sq_kflags :: u64
  sq_kdropped :: u64
  sq_array :: u64
  sq_sqes :: u64
  sq_ring_sz :: u64
  sq_ring_ptr :: u64

record io_uring_cq =
  cq_khead :: u64
  cq_ktail :: u64
  cq_kring_mask :: u64
  cq_kring_entries :: u64
  cq_kflags :: u64
  cq_koverflow :: u64
  cq_cqes :: u64
  cq_ring_sz :: u64
  cq_ring_ptr :: u64

record io_uring =
  ring_sq :: io_uring_sq
  ring_cq :: io_uring_cq
  ring_flags :: u32
  ring_fd :: int
  ring_features :: u32
  internal_flags :: u32

text \<open>\<^verbatim>\<open>memset(ring, 0, sizeof(*ring))\<close>\<close>

definition zero_sq :: io_uring_sq where
  "zero_sq = \<lparr>sq_khead = 0, sq_ktail = 0, sq_kring_mask = 0, sq_kring_entries = 0,
              sq_kflags = 0, sq_kdropped = 0, sq_array = 0, sq_sqes = 0, sq_ring_sz = 0,
              sq_ring_ptr = 0\<rparr>"

definition zero_cq :: io_uring_cq where
  "zero_cq = \<lparr>cq_khead = 0, cq_ktail = 0, cq_kring_mask = 0, cq_kring_entries = 0,
              cq_kflags = 0, cq_koverflow = 0, cq_cqes = 0, cq_ring_sz = 0, cq_ring_ptr = 0\<rparr>"

definition zero_ring :: io_uring where
  "zero_ring = \<lparr>ring_sq = zero_sq, ring_cq = zero_cq, ring_flags = 0, ring_fd = 0,
                ring_features = 0, internal_flags = 0\<rparr>"

section \<open>The operating system\<close>

text \<open>
  \<^verbatim>\<open>setup.c\<close> reaches the kernel through \<^verbatim>\<open>uring_mmap\<close>, \<^verbatim>\<open>uring_munmap\<close>, \<^verbatim>\<open>uring_close\<close>
  and \<^verbatim>\<open>____sys_io_uring_setup\<close> (all in \<^verbatim>\<open>syscall.h\<close>), asks for the page size with
  \<^verbatim>\<open>get_page_size\<close> (\<^verbatim>\<open>lib.h\<close>), clears memory with \<^verbatim>\<open>memset\<close> and reads one word of the
  shared ring. The model records every such call as an event, in order. What the
  kernel answers is not determined by the library: the world carries the answers as
  functions of the history of events and of the arguments of the call, so that a
  statement about every world is a statement about every behaviour of the kernel.
\<close>

datatype event =
    Mmap u64 u64 u32 u32 int u64 u64
      \<comment> \<open>\<open>addr, length, prot, flags, fd, offset\<close> and the pointer returned\<close>
  | Munmap u64 u64
  | Close int
  | Memset u64 u64
      \<comment> \<open>\<^verbatim>\<open>memset(ptr, 0, len)\<close>\<close>
  | Setup u32 io_uring_params int
      \<comment> \<open>\<open>entries\<close>, the parameter block passed in, and the descriptor or error returned\<close>

record world =
  mmap_ret :: "event list \<Rightarrow> u64 \<Rightarrow> u64 \<Rightarrow> u32 \<Rightarrow> u32 \<Rightarrow> int \<Rightarrow> u64 \<Rightarrow> u64"
  setup_ret :: "event list \<Rightarrow> u32 \<Rightarrow> io_uring_params \<Rightarrow> int \<times> io_uring_params"
  mem32 :: "event list \<Rightarrow> u64 \<Rightarrow> u32"
  get_page_size :: u64
  trace :: "event list"

definition uring_mmap ::
  "world \<Rightarrow> u64 \<Rightarrow> u64 \<Rightarrow> u32 \<Rightarrow> u32 \<Rightarrow> int \<Rightarrow> u64 \<Rightarrow> u64 \<times> world" where
  "uring_mmap w addr len prot flgs fd off =
    (let r = mmap_ret w (trace w) addr len prot flgs fd off
     in (r, w\<lparr>trace := trace w @ [Mmap addr len prot flgs fd off r]\<rparr>))"

definition uring_munmap :: "world \<Rightarrow> u64 \<Rightarrow> u64 \<Rightarrow> world" where
  "uring_munmap w addr len = w\<lparr>trace := trace w @ [Munmap addr len]\<rparr>"

definition uring_close :: "world \<Rightarrow> int \<Rightarrow> world" where
  "uring_close w fd = w\<lparr>trace := trace w @ [Close fd]\<rparr>"

definition memset0 :: "world \<Rightarrow> u64 \<Rightarrow> u64 \<Rightarrow> world" where
  "memset0 w ptr len = w\<lparr>trace := trace w @ [Memset ptr len]\<rparr>"

definition sys_io_uring_setup ::
  "world \<Rightarrow> u32 \<Rightarrow> io_uring_params \<Rightarrow> int \<times> io_uring_params \<times> world" where
  "sys_io_uring_setup w entries p =
    (let (fd, p') = setup_ret w (trace w) entries p
     in (fd, p', w\<lparr>trace := trace w @ [Setup entries p fd]\<rparr>))"

text \<open>
  \<^verbatim>\<open>IS_ERR\<close> and \<^verbatim>\<open>PTR_ERR\<close>: a pointer in the last 4095 addresses carries a negative
  error number. \<^verbatim>\<open>PTR_ERR\<close> yields an \<^verbatim>\<open>intptr_t\<close>; \<open>int_of_long\<close> is the conversion to
  \<^verbatim>\<open>int\<close> that happens where the source stores or returns it as an \<^verbatim>\<open>int\<close>.
\<close>

definition IS_ERR :: "u64 \<Rightarrow> bool" where
  "IS_ERR ptr \<longleftrightarrow> ptr \<ge> - 4095"

definition PTR_ERR :: "u64 \<Rightarrow> int" where
  "PTR_ERR ptr = sint ptr"

definition int_of_long :: "int \<Rightarrow> int" where
  "int_of_long x = sint (word_of_int x :: u32)"

text \<open>
  The mappings that are resident after a history of events: a successful \<^verbatim>\<open>mmap\<close> adds
  the region it returned, \<^verbatim>\<open>munmap\<close> of a region removes it.
\<close>

fun resident_step :: "(u64 \<times> u64) list \<Rightarrow> event \<Rightarrow> (u64 \<times> u64) list" where
  "resident_step m (Mmap addr len prot flgs fd off r) = (if IS_ERR r then m else (r, len) # m)"
| "resident_step m (Munmap addr len) = remove1 (addr, len) m"
| "resident_step m (Close fd) = m"
| "resident_step m (Memset ptr len) = m"
| "resident_step m (Setup entries p fd) = m"

definition resident :: "event list \<Rightarrow> (u64 \<times> u64) list" where
  "resident tr = foldl resident_step [] tr"

text \<open>
  What \<^verbatim>\<open>mmap(2)\<close> promises when it is called without \<^verbatim>\<open>MAP_FIXED\<close>: a call that succeeds
  was given a length other than zero and returns an address that is not \<^verbatim>\<open>NULL\<close> and is
  not the start of a region that is still mapped.
\<close>

definition mmap_fresh :: "world \<Rightarrow> bool" where
  "mmap_fresh w \<longleftrightarrow>
    (\<forall>tr addr len prot flgs fd off.
       \<not> IS_ERR (mmap_ret w tr addr len prot flgs fd off) \<longrightarrow>
         len \<noteq> 0 \<and> mmap_ret w tr addr len prot flgs fd off \<noteq> 0 \<and>
         mmap_ret w tr addr len prot flgs fd off \<notin> fst ` set (resident tr))"

section \<open>Mapping the rings\<close>

text \<open>\<^verbatim>\<open>static void io_uring_unmap_rings(struct io_uring_sq *sq, struct io_uring_cq *cq)\<close>\<close>

definition io_uring_unmap_rings :: "world \<Rightarrow> io_uring_sq \<Rightarrow> io_uring_cq \<Rightarrow> world" where
  "io_uring_unmap_rings w sq cq =
    (let w = (if sq_ring_sz sq \<noteq> 0 then uring_munmap w (sq_ring_ptr sq) (sq_ring_sz sq) else w)
     in if cq_ring_ptr cq \<noteq> 0 \<and> cq_ring_sz cq \<noteq> 0 \<and> cq_ring_ptr cq \<noteq> sq_ring_ptr sq
        then uring_munmap w (cq_ring_ptr cq) (cq_ring_sz cq)
        else w)"

text \<open>\<^verbatim>\<open>static void io_uring_setup_ring_pointers(struct io_uring_params *p,
    struct io_uring_sq *sq, struct io_uring_cq *cq)\<close>\<close>

definition io_uring_setup_ring_pointers ::
  "io_uring_params \<Rightarrow> io_uring_sq \<Rightarrow> io_uring_cq \<Rightarrow> io_uring_sq \<times> io_uring_cq" where
  "io_uring_setup_ring_pointers p sq cq =
    (let sq = sq\<lparr>sq_khead := sq_ring_ptr sq + ucast (sqo_head (sq_off p))\<rparr>;
         sq = sq\<lparr>sq_ktail := sq_ring_ptr sq + ucast (sqo_tail (sq_off p))\<rparr>;
         sq = sq\<lparr>sq_kring_mask := sq_ring_ptr sq + ucast (sqo_ring_mask (sq_off p))\<rparr>;
         sq = sq\<lparr>sq_kring_entries := sq_ring_ptr sq + ucast (sqo_ring_entries (sq_off p))\<rparr>;
         sq = sq\<lparr>sq_kflags := sq_ring_ptr sq + ucast (sqo_flags (sq_off p))\<rparr>;
         sq = sq\<lparr>sq_kdropped := sq_ring_ptr sq + ucast (sqo_dropped (sq_off p))\<rparr>;
         sq = sq\<lparr>sq_array := sq_ring_ptr sq + ucast (sqo_array (sq_off p))\<rparr>;
         cq = cq\<lparr>cq_khead := cq_ring_ptr cq + ucast (cqo_head (cq_off p))\<rparr>;
         cq = cq\<lparr>cq_ktail := cq_ring_ptr cq + ucast (cqo_tail (cq_off p))\<rparr>;
         cq = cq\<lparr>cq_kring_mask := cq_ring_ptr cq + ucast (cqo_ring_mask (cq_off p))\<rparr>;
         cq = cq\<lparr>cq_kring_entries := cq_ring_ptr cq + ucast (cqo_ring_entries (cq_off p))\<rparr>;
         cq = cq\<lparr>cq_koverflow := cq_ring_ptr cq + ucast (cqo_overflow (cq_off p))\<rparr>;
         cq = cq\<lparr>cq_cqes := cq_ring_ptr cq + ucast (cqo_cqes (cq_off p))\<rparr>;
         cq = (if cqo_flags (cq_off p) \<noteq> 0
               then cq\<lparr>cq_kflags := cq_ring_ptr cq + ucast (cqo_flags (cq_off p))\<rparr>
               else cq)
     in (sq, cq))"

text \<open>
  \<^verbatim>\<open>static int io_uring_mmap(int fd, struct io_uring_params *p,
                           struct io_uring_sq *sq, struct io_uring_cq *cq)\<close>

  The function is given in three parts. \<open>io_uring_mmap_err\<close> is the code at the label
  \<^verbatim>\<open>err\<close>. \<open>io_uring_mmap_sqes\<close> is the code from the mapping of the submission entries
  to the end. The parameter block is only read.
\<close>

definition io_uring_mmap_err ::
  "world \<Rightarrow> io_uring_sq \<Rightarrow> io_uring_cq \<Rightarrow> int \<Rightarrow> int \<times> io_uring_sq \<times> io_uring_cq \<times> world" where
  "io_uring_mmap_err w sq cq ret = (ret, sq, cq, io_uring_unmap_rings w sq cq)"

definition io_uring_mmap_sqes ::
  "world \<Rightarrow> int \<Rightarrow> io_uring_params \<Rightarrow> io_uring_sq \<Rightarrow> io_uring_cq
    \<Rightarrow> int \<times> io_uring_sq \<times> io_uring_cq \<times> world" where
  "io_uring_mmap_sqes w fd p sq cq =
    (let sz = ucast (sq_entries p) * sizeof_io_uring_sqe;
         (ptr, w) = uring_mmap w 0 sz (PROT_READ OR PROT_WRITE)
                      (MAP_SHARED OR MAP_POPULATE) fd IORING_OFF_SQES;
         sq = sq\<lparr>sq_sqes := ptr\<rparr>
     in if IS_ERR (sq_sqes sq)
        then io_uring_mmap_err w sq cq (int_of_long (PTR_ERR (sq_sqes sq)))
        else let (sq, cq) = io_uring_setup_ring_pointers p sq cq
             in (0, sq, cq, w))"

definition io_uring_mmap ::
  "world \<Rightarrow> int \<Rightarrow> io_uring_params \<Rightarrow> io_uring_sq \<Rightarrow> io_uring_cq
    \<Rightarrow> int \<times> io_uring_sq \<times> io_uring_cq \<times> world" where
  "io_uring_mmap w fd p sq cq =
    (let sq = sq\<lparr>sq_ring_sz := ucast (sqo_array (sq_off p)) + ucast (sq_entries p) * sizeof_unsigned\<rparr>;
         cq = cq\<lparr>cq_ring_sz := ucast (cqo_cqes (cq_off p)) + ucast (cq_entries p) * sizeof_io_uring_cqe\<rparr>;
         sq = (if features p AND IORING_FEAT_SINGLE_MMAP \<noteq> 0 \<and> cq_ring_sz cq > sq_ring_sz sq
               then sq\<lparr>sq_ring_sz := cq_ring_sz cq\<rparr> else sq);
         cq = (if features p AND IORING_FEAT_SINGLE_MMAP \<noteq> 0
               then cq\<lparr>cq_ring_sz := sq_ring_sz sq\<rparr> else cq);
         (ptr, w) = uring_mmap w 0 (sq_ring_sz sq) (PROT_READ OR PROT_WRITE)
                      (MAP_SHARED OR MAP_POPULATE) fd IORING_OFF_SQ_RING;
         sq = sq\<lparr>sq_ring_ptr := ptr\<rparr>
     in if IS_ERR (sq_ring_ptr sq) then (int_of_long (PTR_ERR (sq_ring_ptr sq)), sq, cq, w)
        else if features p AND IORING_FEAT_SINGLE_MMAP \<noteq> 0
          then io_uring_mmap_sqes w fd p sq (cq\<lparr>cq_ring_ptr := sq_ring_ptr sq\<rparr>)
        else
          let (ptr, w) = uring_mmap w 0 (cq_ring_sz cq) (PROT_READ OR PROT_WRITE)
                           (MAP_SHARED OR MAP_POPULATE) fd IORING_OFF_CQ_RING;
              cq = cq\<lparr>cq_ring_ptr := ptr\<rparr>
          in if IS_ERR (cq_ring_ptr cq)
             then io_uring_mmap_err w sq (cq\<lparr>cq_ring_ptr := 0\<rparr>)
                    (int_of_long (PTR_ERR (cq_ring_ptr cq)))
             else io_uring_mmap_sqes w fd p sq cq)"

text \<open>\<^verbatim>\<open>int io_uring_queue_mmap(int fd, struct io_uring_params *p, struct io_uring *ring)\<close>\<close>

definition io_uring_queue_mmap ::
  "world \<Rightarrow> int \<Rightarrow> io_uring_params \<Rightarrow> io_uring \<Rightarrow> int \<times> io_uring \<times> world" where
  "io_uring_queue_mmap w fd p ring =
    (let ring = zero_ring;
         (ret, sq, cq, w) = io_uring_mmap w fd p (ring_sq ring) (ring_cq ring)
     in (ret, ring\<lparr>ring_sq := sq, ring_cq := cq\<rparr>, w))"

section \<open>The contiguous allocator\<close>

text \<open>
  \<^verbatim>\<open>static int io_uring_alloc_huge(unsigned entries, struct io_uring_params *p,
      struct io_uring_sq *sq, struct io_uring_cq *cq, void *buf, size_t buf_size)\<close>

  \<open>io_uring_alloc_huge_used\<close> is the last part of the function, from the comment
  \<^verbatim>\<open>add up memory used\<close> on; \<^verbatim>\<open>mem_used\<close> is an \<^verbatim>\<open>int\<close> that is added to \<^verbatim>\<open>size_t\<close> values,
  so every step extends it to 64 bits, computes, and cuts the result to 32 bits. The
  two locals that receive the negotiated depths are not initialised in the source and
  are read only after a successful negotiation has written them; the model starts
  them at 0.
\<close>

definition io_uring_alloc_huge_used ::
  "world \<Rightarrow> io_uring_params \<Rightarrow> io_uring_sq \<Rightarrow> io_uring_cq \<Rightarrow> u32 \<Rightarrow> u32 \<Rightarrow> u64
    \<Rightarrow> int \<times> io_uring_params \<times> io_uring_sq \<times> io_uring_cq \<times> world" where
  "io_uring_alloc_huge_used w p sq cq sq_entries' cq_entries' sqes_mem =
    (let page_size = get_page_size w;
         mem_used = (0 :: u32);
         mem_used = (ucast ((scast mem_used :: u64) + sqes_mem) :: u32);
         mem_used = (ucast ((scast mem_used :: u64) + ucast sq_entries' * sizeof_unsigned) :: u32);
         mem_used = (ucast ((scast mem_used :: u64) + ucast cq_entries' * sizeof_unsigned) :: u32);
         mem_used = (ucast (((scast mem_used :: u64) + page_size - 1) AND NOT (page_size - 1)) :: u32);
         cq = cq\<lparr>cq_ring_ptr := sq_ring_ptr sq\<rparr>;
         p = p\<lparr>sq_off := (sq_off p)\<lparr>sqo_user_addr := sq_sqes sq\<rparr>\<rparr>;
         p = p\<lparr>cq_off := (cq_off p)\<lparr>cqo_user_addr := sq_ring_ptr sq\<rparr>\<rparr>
     in (sint mem_used, p, sq, cq, w))"

definition io_uring_alloc_huge ::
  "world \<Rightarrow> u32 \<Rightarrow> io_uring_params \<Rightarrow> io_uring_sq \<Rightarrow> io_uring_cq \<Rightarrow> u64 \<Rightarrow> u64
    \<Rightarrow> int \<times> io_uring_params \<times> io_uring_sq \<times> io_uring_cq \<times> world" where
  "io_uring_alloc_huge w entries p sq cq buf buf_size =
    (let page_size = get_page_size w;
         (ret, p, sq_entries, cq_entries) = get_sq_cq_entries entries p 0 0
     in if ret \<noteq> 0 then (ret, p, sq, cq, w)
        else
          let sqes_mem = ucast sq_entries * sizeof_io_uring_sqe;
              sqes_mem = (sqes_mem + page_size - 1) AND NOT (page_size - 1);
              ring_mem = ucast cq_entries * sizeof_io_uring_cqe;
              ring_mem = ring_mem + ucast sq_entries * sizeof_unsigned
          in if buf \<noteq> 0 \<and> sqes_mem + ring_mem > buf_size then (- ENOMEM, p, sq, cq, w)
             else
               let (ptr, w) =
                     (if buf \<noteq> 0 then (buf, w)
                      else uring_mmap w 0 huge_page_size (PROT_READ OR PROT_WRITE)
                             (MAP_SHARED OR MAP_ANONYMOUS OR MAP_HUGETLB) (- 1) 0)
               in if buf = 0 \<and> IS_ERR ptr then (int_of_long (PTR_ERR ptr), p, sq, cq, w)
                  else
                    let buf_size = (if buf \<noteq> 0 then buf_size else huge_page_size);
                        sq = sq\<lparr>sq_sqes := ptr\<rparr>;
                        w = memset0 w ptr buf_size
                    in if sqes_mem + ring_mem \<le> buf_size then
                         let sq = sq\<lparr>sq_ring_ptr := sq_sqes sq + sqes_mem\<rparr>;
                             cq = cq\<lparr>cq_ring_sz := 0\<rparr>;
                             sq = sq\<lparr>sq_ring_sz := 0\<rparr>
                         in io_uring_alloc_huge_used w p sq cq sq_entries cq_entries sqes_mem
                       else
                         let (ptr, w) = uring_mmap w 0 buf_size (PROT_READ OR PROT_WRITE)
                                          (MAP_SHARED OR MAP_ANONYMOUS OR MAP_HUGETLB) (- 1) 0
                         in if IS_ERR ptr
                            then (int_of_long (PTR_ERR ptr), p, sq, cq,
                                  uring_munmap w (sq_sqes sq) buf_size)
                            else
                              let w = memset0 w ptr buf_size;
                                  sq = sq\<lparr>sq_ring_ptr := ptr\<rparr>;
                                  sq = sq\<lparr>sq_ring_sz := buf_size\<rparr>;
                                  cq = cq\<lparr>cq_ring_sz := 0\<rparr>
                              in io_uring_alloc_huge_used w p sq cq sq_entries cq_entries sqes_mem)"

section \<open>Creating and closing a ring\<close>

text \<open>
  \<^verbatim>\<open>static int __io_uring_queue_init_params(unsigned entries, struct io_uring *ring,
      struct io_uring_params *p, void *buf, size_t buf_size)\<close>

  \<open>io_uring_queue_init_params_create\<close> is the function from the call of
  \<^verbatim>\<open>____sys_io_uring_setup\<close> on; \<open>ret\<close> is the value the local \<^verbatim>\<open>ret\<close> has there.
\<close>

definition io_uring_queue_init_params_create ::
  "world \<Rightarrow> u32 \<Rightarrow> io_uring \<Rightarrow> io_uring_params \<Rightarrow> int
    \<Rightarrow> int \<times> io_uring \<times> io_uring_params \<times> world" where
  "io_uring_queue_init_params_create w entries ring p ret =
    (let (fd, p, w) = sys_io_uring_setup w entries p
     in if fd < 0 then
          let w = (if flags p AND IORING_SETUP_NO_MMAP \<noteq> 0 \<and>
                      ring_flags ring AND IORING_INT_FLAG_APP_MEM = 0
                   then let w = uring_munmap w (sq_sqes (ring_sq ring)) huge_page_size
                        in io_uring_unmap_rings w (ring_sq ring) (ring_cq ring)
                   else w)
          in (fd, ring, p, w)
        else if flags p AND IORING_SETUP_NO_MMAP = 0 then
          let (ret, ring, w) = io_uring_queue_mmap w fd p ring
          in if ret \<noteq> 0 then (ret, ring, p, uring_close w fd)
             else (ret, ring\<lparr>ring_features := features p, ring_flags := flags p,
                              ring_fd := fd\<rparr>, p, w)
        else
          let (sq, cq) = io_uring_setup_ring_pointers p (ring_sq ring) (ring_cq ring);
              ring = ring\<lparr>ring_sq := sq, ring_cq := cq\<rparr>
          in (ret, ring\<lparr>ring_features := features p, ring_flags := flags p,
                           ring_fd := fd\<rparr>, p, w))"

definition io_uring_queue_init_params0 ::
  "world \<Rightarrow> u32 \<Rightarrow> io_uring \<Rightarrow> io_uring_params \<Rightarrow> u64 \<Rightarrow> u64
    \<Rightarrow> int \<times> io_uring \<times> io_uring_params \<times> world" where
  "io_uring_queue_init_params0 w entries ring p buf buf_size =
    (let ring = zero_ring
     in if flags p AND IORING_SETUP_NO_MMAP \<noteq> 0 then
          let (ret, p, sq, cq, w) =
                io_uring_alloc_huge w entries p (ring_sq ring) (ring_cq ring) buf buf_size;
              ring = ring\<lparr>ring_sq := sq, ring_cq := cq\<rparr>
          in if ret < 0 then (ret, ring, p, w)
             else
               let ring = (if buf \<noteq> 0
                           then ring\<lparr>internal_flags := internal_flags ring OR IORING_INT_FLAG_APP_MEM\<rparr>
                           else ring)
               in io_uring_queue_init_params_create w entries ring p ret
        else io_uring_queue_init_params_create w entries ring p 0)"

text \<open>\<^verbatim>\<open>int io_uring_queue_init_mem(unsigned entries, struct io_uring *ring,
    struct io_uring_params *p, void *buf, size_t buf_size)\<close>\<close>

definition io_uring_queue_init_mem ::
  "world \<Rightarrow> u32 \<Rightarrow> io_uring \<Rightarrow> io_uring_params \<Rightarrow> u64 \<Rightarrow> u64
    \<Rightarrow> int \<times> io_uring \<times> io_uring_params \<times> world" where
  "io_uring_queue_init_mem w entries ring p buf buf_size =
    (let p = p\<lparr>flags := flags p OR IORING_SETUP_NO_MMAP\<rparr>
     in io_uring_queue_init_params0 w entries ring p buf buf_size)"

text \<open>\<^verbatim>\<open>int io_uring_queue_init_params(unsigned entries, struct io_uring *ring,
    struct io_uring_params *p)\<close>\<close>

definition io_uring_queue_init_params ::
  "world \<Rightarrow> u32 \<Rightarrow> io_uring \<Rightarrow> io_uring_params \<Rightarrow> int \<times> io_uring \<times> io_uring_params \<times> world" where
  "io_uring_queue_init_params w entries ring p =
    (let (ret, ring, p, w) = io_uring_queue_init_params0 w entries ring p 0 0
     in (if ret \<ge> 0 then 0 else ret, ring, p, w))"

text \<open>\<^verbatim>\<open>int io_uring_queue_init(unsigned entries, struct io_uring *ring, unsigned flags)\<close>\<close>

definition io_uring_queue_init ::
  "world \<Rightarrow> u32 \<Rightarrow> io_uring \<Rightarrow> u32 \<Rightarrow> int \<times> io_uring \<times> world" where
  "io_uring_queue_init w entries ring flgs =
    (let p = zero_params;
         p = p\<lparr>flags := flgs\<rparr>;
         (ret, ring, p, w) = io_uring_queue_init_params w entries ring p
     in (ret, ring, w))"

text \<open>\<^verbatim>\<open>void io_uring_queue_exit(struct io_uring *ring)\<close>; \<^verbatim>\<open>*sq->kring_entries\<close> is a read
  of the shared ring.\<close>

definition io_uring_queue_exit :: "world \<Rightarrow> io_uring \<Rightarrow> world" where
  "io_uring_queue_exit w ring =
    (let sq = ring_sq ring;
         cq = ring_cq ring
     in if sq_ring_sz sq = 0 then
          let w = uring_close w (ring_fd ring);
              w = uring_munmap w (sq_sqes sq) huge_page_size
          in io_uring_unmap_rings w sq cq
        else
          let w = (if internal_flags ring AND IORING_INT_FLAG_APP_MEM = 0
                   then let w = uring_munmap w (sq_sqes sq)
                                  (ucast (mem32 w (trace w) (sq_kring_entries sq)) * sizeof_io_uring_sqe)
                        in io_uring_unmap_rings w sq cq
                   else w)
          in uring_close w (ring_fd ring))"

section \<open>The memlock estimate\<close>

text \<open>
  \<^verbatim>\<open>ssize_t io_uring_mlock_size_params(unsigned entries, struct io_uring_params *p)\<close>

  The result is \<open>None\<close> where the layout calculator divides by zero. The local
  \<^verbatim>\<open>ring\<close> is not initialised in the source; \<^verbatim>\<open>io_uring_queue_init_params\<close> clears it before
  it reads it.
\<close>

definition io_uring_mlock_size_params ::
  "world \<Rightarrow> u32 \<Rightarrow> io_uring_params \<Rightarrow> int option \<times> world" where
  "io_uring_mlock_size_params w entries p =
    (let lp = zero_params;
         (ret, ring, lp, w) = io_uring_queue_init_params w entries zero_ring lp;
         w = (if ret = 0 then io_uring_queue_exit w ring else w)
     in if features lp AND IORING_FEAT_NATIVE_WORKERS \<noteq> 0 then (Some 0, w)
        else if entries = 0 then (Some (- EINVAL), w)
        else if entries > KERN_MAX_ENTRIES \<and> flags p AND IORING_SETUP_CLAMP = 0
          then (Some (- EINVAL), w)
        else
          let entries = (if entries > KERN_MAX_ENTRIES then KERN_MAX_ENTRIES else entries);
              (cret, p, sq, cq_entries) = get_sq_cq_entries entries p 0 0
          in if cret \<noteq> 0 then (Some cret, w)
             else
               let page_size = get_page_size w
               in (map_option sint (rings_size sq cq_entries (ucast page_size)), w))"

text \<open>\<^verbatim>\<open>ssize_t io_uring_mlock_size(unsigned entries, unsigned flags)\<close>\<close>

definition io_uring_mlock_size :: "world \<Rightarrow> u32 \<Rightarrow> u32 \<Rightarrow> int option \<times> world" where
  "io_uring_mlock_size w entries flgs =
    (let p = zero_params\<lparr>flags := flgs\<rparr>
     in io_uring_mlock_size_params w entries p)"

section \<open>Notions used in the statements\<close>

text \<open>
  The sizes of the two ring regions as \<^verbatim>\<open>io_uring_mmap\<close> computes them first, before the
  single-mapping capability is looked at.
\<close>

definition sq_ring_bytes :: "io_uring_params \<Rightarrow> u64" where
  "sq_ring_bytes p = ucast (sqo_array (sq_off p)) + ucast (sq_entries p) * sizeof_unsigned"

definition cq_ring_bytes :: "io_uring_params \<Rightarrow> u64" where
  "cq_ring_bytes p = ucast (cqo_cqes (cq_off p)) + ucast (cq_entries p) * sizeof_io_uring_cqe"

text \<open>
  A mapping call for one of the two ring regions, as opposed to the mapping of the
  array of submission entries: the call names the offset of the submission ring or of
  the completion ring.
\<close>

fun is_ring_mmap :: "event \<Rightarrow> bool" where
  "is_ring_mmap (Mmap addr len prot flgs fd off r) \<longleftrightarrow>
     off = IORING_OFF_SQ_RING \<or> off = IORING_OFF_CQ_RING"
| "is_ring_mmap (Munmap addr len) \<longleftrightarrow> False"
| "is_ring_mmap (Close fd) \<longleftrightarrow> False"
| "is_ring_mmap (Memset ptr len) \<longleftrightarrow> False"
| "is_ring_mmap (Setup entries p fd) \<longleftrightarrow> False"

text \<open>
  A world is a later state of the same machine: the answers of the kernel and the page
  size are the same, the history has grown.
\<close>

definition extends :: "world \<Rightarrow> world \<Rightarrow> bool" where
  "extends w w' \<longleftrightarrow> (\<exists>evs. w' = w\<lparr>trace := trace w @ evs\<rparr>)"

text \<open>
  The layout computed the way the specification words it: every size is rounded up to
  a whole number of pages, that is to the least multiple of the page size that holds it.
\<close>

definition pages_of_bytes :: "nat \<Rightarrow> nat \<Rightarrow> nat" where
  "pages_of_bytes sz page_size = (sz + page_size - 1) div page_size"

definition rings_size_whole_pages :: "nat \<Rightarrow> nat \<Rightarrow> nat \<Rightarrow> nat" where
  "rings_size_whole_pages entries cq_entries' page_size =
    (let cq_size = unat KRING_SIZE + cq_entries' * unat sizeof_io_uring_cqe;
         cq_size = (cq_size + 63) div 64 * 64;
         cq_pages = pages_of_bytes cq_size page_size;
         sq_size = unat sizeof_io_uring_sqe * entries;
         sq_pages = pages_of_bytes sq_size page_size
     in (cq_pages + sq_pages) * page_size)"

section \<open>Example kernels\<close>

text \<open>
  Machines with pages of 4096 bytes, used where a statement is evaluated on a
  concrete input. \<open>kernel_refuses\<close> fails every call with \<^verbatim>\<open>-ENOMEM\<close>. \<open>kernel_native\<close>
  creates rings with descriptor 3, reports \<^verbatim>\<open>IORING_FEAT_NATIVE_WORKERS\<close> and maps every
  region. \<open>kernel_one_mapping\<close> grants a mapping only while nothing is mapped.
  \<open>kernel_maps_nothing\<close> creates rings as \<open>kernel_native\<close> does and fails every mapping.
  \<open>kernel_fills_then_fails\<close> fills in the feature bits and then fails ring creation
  with \<^verbatim>\<open>-EMFILE\<close>.
  \<open>params_8\<close> is a parameter block as the kernel fills it for a ring of depth 8.
\<close>

definition kernel_refuses :: world where
  "kernel_refuses =
     \<lparr>mmap_ret = (\<lambda>tr addr len prot flgs fd off. - 12),
      setup_ret = (\<lambda>tr entries p. (- 12, p)),
      mem32 = (\<lambda>tr a. 0), get_page_size = 4096, trace = []\<rparr>"

definition kernel_native :: world where
  "kernel_native =
     \<lparr>mmap_ret = (\<lambda>tr addr len prot flgs fd off.
                     if off = IORING_OFF_SQ_RING then 0x7F0000000000
                     else if off = IORING_OFF_CQ_RING then 0x7F0000100000
                     else 0x7F0000200000),
      setup_ret = (\<lambda>tr entries p.
                     (3, p\<lparr>sq_entries := entries, cq_entries := 2 * entries,
                             features := IORING_FEAT_NATIVE_WORKERS\<rparr>)),
      mem32 = (\<lambda>tr a. 0), get_page_size = 4096, trace = []\<rparr>"

definition kernel_one_mapping :: world where
  "kernel_one_mapping =
     \<lparr>mmap_ret = (\<lambda>tr addr len prot flgs fd off.
                     if len \<noteq> 0 \<and> resident tr = [] then 0x7F0000000000 else - 12),
      setup_ret = (\<lambda>tr entries p. (- 12, p)),
      mem32 = (\<lambda>tr a. 0), get_page_size = 4096, trace = []\<rparr>"

definition kernel_maps_nothing :: world where
  "kernel_maps_nothing =
     \<lparr>mmap_ret = (\<lambda>tr addr len prot flgs fd off. - 12),
      setup_ret = (\<lambda>tr entries p.
                     (3, p\<lparr>sq_entries := entries, cq_entries := 2 * entries,
                             features := IORING_FEAT_NATIVE_WORKERS\<rparr>)),
      mem32 = (\<lambda>tr a. 0), get_page_size = 4096, trace = []\<rparr>"

definition kernel_fills_then_fails :: world where
  "kernel_fills_then_fails =
     \<lparr>mmap_ret = (\<lambda>tr addr len prot flgs fd off. - 12),
      setup_ret = (\<lambda>tr entries p. (- 24, p\<lparr>features := IORING_FEAT_NATIVE_WORKERS\<rparr>)),
      mem32 = (\<lambda>tr a. 0), get_page_size = 4096, trace = []\<rparr>"

definition params_8 :: io_uring_params where
  "params_8 = zero_params\<lparr>sq_entries := 8, cq_entries := 16,
                sq_off := zero_sq_off\<lparr>sqo_array := 64\<rparr>,
                cq_off := zero_cq_off\<lparr>cqo_cqes := 64\<rparr>\<rparr>"

section \<open>Properties of find-last-set and of rounding\<close>

lemma bit_len_le_iff: "bit_len n \<le> k \<longleftrightarrow> n < 2 ^ k"
proof (induction n arbitrary: k rule: bit_len.induct)
  case (1 n)
  show ?case
  proof (cases "n = 0")
    case True then show ?thesis by (simp add: bit_len.simps)
  next
    case False
    show ?thesis
    proof (cases k)
      case 0 with False show ?thesis by (simp add: bit_len.simps [of n])
    next
      case (Suc j)
      have "bit_len n \<le> Suc j \<longleftrightarrow> bit_len (n div 2) \<le> j"
        using False by (simp add: bit_len.simps [of n])
      also have "\<dots> \<longleftrightarrow> n div 2 < 2 ^ j" using 1 False by simp
      also have "\<dots> \<longleftrightarrow> n < 2 ^ Suc j" by auto
      finally show ?thesis using Suc by simp
    qed
  qed
qed

lemma bit_len_unat32: "bit_len (unat (x :: u32)) \<le> 32"
  using bit_len_le_iff [of "unat x" 32] unsigned_less [of x] by simp

lemma bit_len_0: "bit_len 0 = 0"
  by (simp add: bit_len.simps [of 0])

lemma fls_eq: "fls x = bit_len (unat x)"
  using bit_len_unat32 [of x] by (simp add: fls_def builtin_clz_def bit_len_0)

lemma bit_len_pred_le_iff: "0 < n \<Longrightarrow> bit_len (n - 1) \<le> k \<longleftrightarrow> n \<le> 2 ^ k"
  by (auto simp add: bit_len_le_iff)

lemma unat_2p: "k < LENGTH('a) \<Longrightarrow> unat (2 ^ k :: 'a::len word) = 2 ^ k"
proof -
  assume k: "k < LENGTH('a)"
  have d: "(2::nat) ^ k < 2 ^ LENGTH('a)" using k by (rule power_strict_increasing) simp
  have e: "(2 ^ k :: 'a word) = word_of_nat (2 ^ k)" by simp
  show ?thesis unfolding e unat_of_nat using d by (rule mod_less)
qed

lemma unat_shift_trunc: "k < 32 \<Longrightarrow> unat (ucast (2 ^ k :: u64) :: u32) = 2 ^ k"
proof -
  assume k: "k < 32"
  have c: "(2::nat) ^ k < 2 ^ 32" using k by (rule power_strict_increasing) simp
  have b: "unat (2 ^ k :: u64) = 2 ^ k" using k by (intro unat_2p) simp
  show ?thesis
    unfolding unsigned_ucast_eq b using c k by (simp add: take_bit_nat_eq_self)
qed


lemma unat_roundup_pow2:
  assumes "d \<noteq> 0" and "unat d \<le> 2 ^ 31"
  shows "unat (roundup_pow2 d) = 2 ^ bit_len (unat d - 1)"
proof -
  have pos: "0 < unat d" using assms(1) by (simp add: unat_gt_0)
  have le: "bit_len (unat d - 1) \<le> 31"
    using bit_len_pred_le_iff [OF pos, of 31] assms(2) by simp
  have u: "unat (d - 1) = unat d - 1"
    using assms(1) by (simp add: unat_minus_one)
  show ?thesis
    using le by (simp add: roundup_pow2_def fls_eq u unat_shift_trunc push_bit_of_1)
qed

lemma roundup_pow2_least:
  assumes "d \<noteq> 0" and "unat d \<le> 2 ^ 31"
  shows "\<exists>k. unat (roundup_pow2 d) = 2 ^ k \<and> unat d \<le> 2 ^ k \<and> (\<forall>j. unat d \<le> 2 ^ j \<longrightarrow> k \<le> j)"
proof -
  have pos: "0 < unat d" using assms(1) by (simp add: unat_gt_0)
  show ?thesis
    using unat_roundup_pow2 [OF assms] bit_len_pred_le_iff [OF pos] by blast
qed

section \<open>Properties of depth negotiation\<close>

lemma gsce_cases:
  "get_sq_cq_entries entries p sq0 cq0 = (- EINVAL, p, sq0, cq0) \<or>
   (entries \<noteq> 0 \<and> (entries \<le> KERN_MAX_ENTRIES \<or> flags p AND IORING_SETUP_CLAMP \<noteq> 0) \<and>
    flags p AND IORING_SETUP_CQSIZE = 0 \<and>
    get_sq_cq_entries entries p sq0 cq0 =
      (0, p, roundup_pow2 (if entries > KERN_MAX_ENTRIES then KERN_MAX_ENTRIES else entries),
       2 * roundup_pow2 (if entries > KERN_MAX_ENTRIES then KERN_MAX_ENTRIES else entries))) \<or>
   (entries \<noteq> 0 \<and> (entries \<le> KERN_MAX_ENTRIES \<or> flags p AND IORING_SETUP_CLAMP \<noteq> 0) \<and>
    flags p AND IORING_SETUP_CQSIZE \<noteq> 0 \<and> cq_entries p \<noteq> 0 \<and>
    roundup_pow2 (if entries > KERN_MAX_ENTRIES then KERN_MAX_ENTRIES else entries)
      \<le> roundup_pow2 (if cq_entries p > KERN_MAX_CQ_ENTRIES then KERN_MAX_CQ_ENTRIES else cq_entries p) \<and>
    get_sq_cq_entries entries p sq0 cq0 =
      (0, p, roundup_pow2 (if entries > KERN_MAX_ENTRIES then KERN_MAX_ENTRIES else entries),
       roundup_pow2 (if cq_entries p > KERN_MAX_CQ_ENTRIES then KERN_MAX_CQ_ENTRIES else cq_entries p)))"
  unfolding get_sq_cq_entries_def Let_def
  by (auto simp: not_less)


lemma clamp_entries_bounds:
  assumes "e \<noteq> 0"
  shows "(if e > KERN_MAX_ENTRIES then KERN_MAX_ENTRIES else e) \<noteq> 0"
    and "unat (if e > KERN_MAX_ENTRIES then KERN_MAX_ENTRIES else e) \<le> 2 ^ 15"
  using assms by (auto simp: KERN_MAX_ENTRIES_def not_less word_le_nat_alt)

lemma clamp_cq_entries_bounds:
  assumes "e \<noteq> 0"
  shows "(if e > KERN_MAX_CQ_ENTRIES then KERN_MAX_CQ_ENTRIES else e) \<noteq> 0"
    and "unat (if e > KERN_MAX_CQ_ENTRIES then KERN_MAX_CQ_ENTRIES else e) \<le> 2 ^ 16"
  using assms
  by (auto simp: KERN_MAX_CQ_ENTRIES_def KERN_MAX_ENTRIES_def not_less word_le_nat_alt)

lemma roundup_pow2_bounded:
  assumes "d \<noteq> 0" and "unat d \<le> 2 ^ n" and "n \<le> 31"
  shows "\<exists>k\<le>n. unat (roundup_pow2 d) = 2 ^ k"
proof -
  have pos: "0 < unat d" using assms(1) by (simp add: unat_gt_0)
  have "(2::nat) ^ n \<le> 2 ^ 31" using assms(3) by (rule power_increasing) simp
  then have le31: "unat d \<le> 2 ^ 31" using assms(2) by (rule order_trans [rotated])
  have "bit_len (unat d - 1) \<le> n"
    using bit_len_pred_le_iff [OF pos, of n] assms(2) by simp
  then show ?thesis
    using unat_roundup_pow2 [OF assms(1) le31] by blast
qed

text \<open>
  Claim C4. Whenever depth negotiation succeeds (returns 0), the submission depth and the
  completion depth it stores are both powers of two and the completion depth is at least
  the submission depth; when \<^verbatim>\<open>IORING_SETUP_CQSIZE\<close> is not set, the completion depth
  is exactly twice the submission depth.
\<close>

theorem get_sq_cq_entries_pow2:
  assumes "get_sq_cq_entries entries p sq0 cq0 = (0, p', sq, cq)"
  shows "(\<exists>k. unat sq = 2 ^ k) \<and> (\<exists>k. unat cq = 2 ^ k) \<and> sq \<le> cq \<and>
         (flags p AND IORING_SETUP_CQSIZE = 0 \<longrightarrow> unat cq = 2 * unat sq)"
proof -
  let ?e = "if entries > KERN_MAX_ENTRIES then KERN_MAX_ENTRIES else entries"
  let ?c = "if cq_entries p > KERN_MAX_CQ_ENTRIES then KERN_MAX_CQ_ENTRIES else cq_entries p"
  from gsce_cases [of entries p sq0 cq0] assms
  consider
    (dflt) "entries \<noteq> 0" "flags p AND IORING_SETUP_CQSIZE = 0"
           "sq = roundup_pow2 ?e" "cq = 2 * roundup_pow2 ?e"
  | (cqsz) "entries \<noteq> 0" "flags p AND IORING_SETUP_CQSIZE \<noteq> 0" "cq_entries p \<noteq> 0"
           "sq = roundup_pow2 ?e" "cq = roundup_pow2 ?c" "sq \<le> cq"
    by (auto simp: EINVAL_def)
  then show ?thesis
  proof cases
    case dflt
    obtain k where k: "k \<le> 15" "unat sq = 2 ^ k"
      using roundup_pow2_bounded [OF clamp_entries_bounds(1) [OF dflt(1)] clamp_entries_bounds(2) [OF dflt(1)]] dflt(3) by auto
    have "(2::nat) ^ k \<le> 2 ^ 15" using k(1) by (rule power_increasing) simp
    then have small: "unat sq \<le> 32768" using k(2) by simp
    have "unat cq = 2 * unat sq"
      using small dflt(3,4) by (simp add: unat_word_ariths)
    moreover from this have "unat cq = 2 ^ Suc k" using k(2) by simp
    moreover from \<open>unat cq = 2 * unat sq\<close> have "sq \<le> cq" by (simp add: word_le_nat_alt)
    ultimately show ?thesis using k(2) by blast
  next
    case cqsz
    obtain k where k: "unat sq = 2 ^ k"
      using roundup_pow2_bounded [OF clamp_entries_bounds(1) [OF cqsz(1)] clamp_entries_bounds(2) [OF cqsz(1)]] cqsz(4) by auto
    obtain j where j: "unat cq = 2 ^ j"
      using roundup_pow2_bounded [OF clamp_cq_entries_bounds(1) [OF cqsz(3)] clamp_cq_entries_bounds(2) [OF cqsz(3)]] cqsz(5) by auto
    show ?thesis using k j cqsz(2,6) by blast
  qed
qed

text \<open>
  Claim C10. Whenever depth negotiation fails (returns a value other than 0), the value
  is \<open>- EINVAL\<close>, which is negative, and the three objects behind the pointer arguments,
  the parameter block and the two outputs, hold what they held before the call.
\<close>

theorem get_sq_cq_entries_failure_frame:
  assumes "get_sq_cq_entries entries p sq0 cq0 = (ret, p', sq, cq)" and "ret \<noteq> 0"
  shows "ret = - EINVAL \<and> ret < 0 \<and> p' = p \<and> sq = sq0 \<and> cq = cq0"
  using gsce_cases [of entries p sq0 cq0] assms by (auto simp: EINVAL_def)

lemma gsce_default_ok:
  assumes "entries \<noteq> 0"
      and "entries \<le> KERN_MAX_ENTRIES \<or> flags p AND IORING_SETUP_CLAMP \<noteq> 0"
      and "flags p AND IORING_SETUP_CQSIZE = 0"
  shows "fst (get_sq_cq_entries entries p sq0 cq0) = 0"
  using assms by (auto simp: get_sq_cq_entries_def Let_def not_less)

text \<open>
  Claim C3. Depth negotiation returns \<open>- EINVAL\<close> for a requested depth of zero, and for
  a requested depth above 32768 when \<^verbatim>\<open>IORING_SETUP_CLAMP\<close> is not set. With the clamp
  flag a requested depth above 32768 is negotiated to 32768. For a requested depth
  \<open>d\<close> with \<open>1 \<le> d \<le> 32768\<close> the negotiated submission depth is the least power of two
  that is at least \<open>d\<close>. The negotiation does succeed on every depth that passes these
  checks when no explicit completion-queue size is requested.
\<close>

theorem get_sq_cq_entries_depth:
  assumes "get_sq_cq_entries entries p sq0 cq0 = (ret, p', sq, cq)"
  shows "(entries = 0 \<longrightarrow> ret = - EINVAL) \<and>
         (32768 < entries \<and> flags p AND IORING_SETUP_CLAMP = 0 \<longrightarrow> ret = - EINVAL) \<and>
         (32768 < entries \<and> flags p AND IORING_SETUP_CLAMP \<noteq> 0 \<and> ret = 0 \<longrightarrow> sq = 32768) \<and>
         (entries \<noteq> 0 \<and> entries \<le> 32768 \<and> ret = 0 \<longrightarrow>
            (\<exists>k. unat sq = 2 ^ k \<and> unat entries \<le> 2 ^ k \<and>
                 (\<forall>j. unat entries \<le> 2 ^ j \<longrightarrow> k \<le> j))) \<and>
         (entries \<noteq> 0 \<and> (entries \<le> 32768 \<or> flags p AND IORING_SETUP_CLAMP \<noteq> 0) \<and>
            flags p AND IORING_SETUP_CQSIZE = 0 \<longrightarrow> ret = 0)"
proof -
  have kmax: "KERN_MAX_ENTRIES = 32768" by (simp add: KERN_MAX_ENTRIES_def)
  have r32768: "roundup_pow2 32768 = 32768"
    by (simp add: roundup_pow2_def fls_eq bit_len.simps)
  have a: "entries = 0 \<longrightarrow> ret = - EINVAL"
    using gsce_cases [of entries p sq0 cq0] assms by auto
  have b: "32768 < entries \<and> flags p AND IORING_SETUP_CLAMP = 0 \<longrightarrow> ret = - EINVAL"
    using gsce_cases [of entries p sq0 cq0] assms by (auto simp: kmax)
  have c: "32768 < entries \<and> flags p AND IORING_SETUP_CLAMP \<noteq> 0 \<and> ret = 0 \<longrightarrow> sq = 32768"
    using gsce_cases [of entries p sq0 cq0] assms by (auto simp: kmax r32768 EINVAL_def)
  have d: "entries \<noteq> 0 \<and> entries \<le> 32768 \<and> ret = 0 \<longrightarrow>
            (\<exists>k. unat sq = 2 ^ k \<and> unat entries \<le> 2 ^ k \<and>
                 (\<forall>j. unat entries \<le> 2 ^ j \<longrightarrow> k \<le> j))"
  proof (intro impI, elim conjE)
    assume h: "entries \<noteq> 0" "entries \<le> 32768" "ret = 0"
    have sq: "sq = roundup_pow2 entries"
      using gsce_cases [of entries p sq0 cq0] assms h by (auto simp: kmax EINVAL_def)
    have "unat entries \<le> 2 ^ 31" using h(2) by (simp add: word_le_nat_alt)
    from roundup_pow2_least [OF h(1) this] show
      "\<exists>k. unat sq = 2 ^ k \<and> unat entries \<le> 2 ^ k \<and> (\<forall>j. unat entries \<le> 2 ^ j \<longrightarrow> k \<le> j)"
      unfolding sq .
  qed
  have e: "entries \<noteq> 0 \<and> (entries \<le> 32768 \<or> flags p AND IORING_SETUP_CLAMP \<noteq> 0) \<and>
            flags p AND IORING_SETUP_CQSIZE = 0 \<longrightarrow> ret = 0"
    using gsce_default_ok [of entries p sq0 cq0] assms by (auto simp: kmax)
  from a b c d e show ?thesis by blast
qed

lemma negotiate_1000: "get_sq_cq_entries 1000 zero_params 0 0 = (0, zero_params, 1024, 2048)"
  by (simp add: get_sq_cq_entries_def zero_params_def KERN_MAX_ENTRIES_def
      IORING_SETUP_CQSIZE_def roundup_pow2_def fls_eq bit_len.simps)

lemma negotiate_0: "get_sq_cq_entries 0 zero_params 7 9 = (- 22, zero_params, 7, 9)"
  by (simp add: get_sq_cq_entries_def EINVAL_def)

lemma negotiate_40000: "get_sq_cq_entries 40000 zero_params 7 9 = (- 22, zero_params, 7, 9)"
  by (simp add: get_sq_cq_entries_def EINVAL_def zero_params_def KERN_MAX_ENTRIES_def)

lemma negotiate_40000_clamp: "get_sq_cq_entries 40000 (zero_params\<lparr>flags := IORING_SETUP_CLAMP\<rparr>) 7 9
    = (0, zero_params\<lparr>flags := IORING_SETUP_CLAMP\<rparr>, 32768, 65536)"
  by (simp add: get_sq_cq_entries_def zero_params_def KERN_MAX_ENTRIES_def
      IORING_SETUP_CQSIZE_def IORING_SETUP_CLAMP_def roundup_pow2_def fls_eq bit_len.simps)

theorem get_sq_cq_entries_pow2_witness:
  "get_sq_cq_entries 1000 zero_params 0 0 = (0, zero_params, 1024, 2048) \<and>
   (\<exists>k. unat (1024 :: u32) = 2 ^ k) \<and> (\<exists>k. unat (2048 :: u32) = 2 ^ k) \<and>
   (1024 :: u32) \<le> 2048 \<and> unat (2048 :: u32) = 2 * unat (1024 :: u32)"
  using get_sq_cq_entries_pow2 [OF negotiate_1000] negotiate_1000
  by (simp add: zero_params_def IORING_SETUP_CQSIZE_def)

theorem get_sq_cq_entries_failure_frame_witness:
  "get_sq_cq_entries 40000 zero_params 7 9 = (- 22, zero_params, 7, 9) \<and>
   (- 22 :: int) = - EINVAL \<and> (- 22 :: int) < 0"
  using get_sq_cq_entries_failure_frame [OF negotiate_40000] negotiate_40000 by simp

theorem get_sq_cq_entries_depth_witness:
  "get_sq_cq_entries 0 zero_params 7 9 = (- 22, zero_params, 7, 9) \<and>
   get_sq_cq_entries 40000 zero_params 7 9 = (- 22, zero_params, 7, 9) \<and>
   (- 22 :: int) = - EINVAL \<and>
   get_sq_cq_entries 40000 (zero_params\<lparr>flags := IORING_SETUP_CLAMP\<rparr>) 7 9
    = (0, zero_params\<lparr>flags := IORING_SETUP_CLAMP\<rparr>, 32768, 65536) \<and>
   get_sq_cq_entries 1000 zero_params 0 0 = (0, zero_params, 1024, 2048) \<and>
   (\<exists>k. unat (1024 :: u32) = 2 ^ k \<and> unat (1000 :: u32) \<le> 2 ^ k)"
  using get_sq_cq_entries_depth [OF negotiate_1000] get_sq_cq_entries_depth [OF negotiate_0]
    get_sq_cq_entries_depth [OF negotiate_40000] get_sq_cq_entries_depth [OF negotiate_40000_clamp] negotiate_1000 negotiate_0 negotiate_40000 negotiate_40000_clamp
  by (auto simp add: zero_params_def IORING_SETUP_CLAMP_def)

section \<open>Evaluation on concrete inputs\<close>

text \<open>
  The definitions to unfold when a function of the model is evaluated on a concrete
  input.
\<close>

lemmas const_defs = EINVAL_def ENOMEM_def PROT_READ_def PROT_WRITE_def MAP_SHARED_def
  MAP_ANONYMOUS_def MAP_POPULATE_def MAP_HUGETLB_def IORING_SETUP_CQSIZE_def
  IORING_SETUP_CLAMP_def IORING_SETUP_NO_MMAP_def IORING_FEAT_SINGLE_MMAP_def
  IORING_FEAT_NATIVE_WORKERS_def IORING_OFF_SQ_RING_def IORING_OFF_CQ_RING_def
  IORING_OFF_SQES_def IORING_INT_FLAG_APP_MEM_def sizeof_unsigned_def
  sizeof_io_uring_sqe_def sizeof_io_uring_cqe_def KERN_MAX_ENTRIES_def
  KERN_MAX_CQ_ENTRIES_def KRING_SIZE_def huge_page_size_def

lemmas zero_defs = zero_params_def zero_sq_off_def zero_cq_off_def zero_sq_def zero_cq_def
  zero_ring_def

lemmas os_defs = uring_mmap_def uring_munmap_def uring_close_def memset0_def
  sys_io_uring_setup_def IS_ERR_def

lemmas mmap_defs = io_uring_mmap_def io_uring_mmap_sqes_def io_uring_mmap_err_def
  io_uring_unmap_rings_def io_uring_setup_ring_pointers_def io_uring_queue_mmap_def

lemma negotiate_1024: "get_sq_cq_entries 1024 zero_params 0 0 = (0, zero_params, 1024, 2048)"
  by (simp add: get_sq_cq_entries_def zero_params_def KERN_MAX_ENTRIES_def
      IORING_SETUP_CQSIZE_def roundup_pow2_def fls_eq bit_len.simps)

lemma negotiate_1024_no_mmap:
  "get_sq_cq_entries 1024 (zero_params\<lparr>flags := IORING_SETUP_NO_MMAP\<rparr>) a b
     = (0, zero_params\<lparr>flags := IORING_SETUP_NO_MMAP\<rparr>, 1024, 2048)"
  by (simp add: get_sq_cq_entries_def zero_params_def KERN_MAX_ENTRIES_def
      IORING_SETUP_CQSIZE_def IORING_SETUP_NO_MMAP_def roundup_pow2_def fls_eq bit_len.simps)

section \<open>Properties of the layout calculator\<close>

lemma bit_len_div_le_iff:
  assumes "0 < s" and "0 < ps"
  shows "bit_len ((s - 1) div ps) \<le> j \<longleftrightarrow> s \<le> 2 ^ j * ps"
proof -
  have "bit_len ((s - 1) div ps) \<le> j \<longleftrightarrow> (s - 1) div ps < 2 ^ j"
    by (rule bit_len_le_iff)
  also have "\<dots> \<longleftrightarrow> s - 1 < 2 ^ j * ps"
    using assms(2) by (rule div_less_iff_less_mult)
  also have "\<dots> \<longleftrightarrow> s \<le> 2 ^ j * ps"
    using assms(1) by auto
  finally show ?thesis .
qed

lemma bit_len_bound: "q < 2 ^ k \<Longrightarrow> bit_len q \<le> k"
  by (simp add: bit_len_le_iff)

lemma and_not_mask_push_drop:
  "(x :: 'a::len word) AND NOT (mask n) = push_bit n (drop_bit n x)"
  by (rule bit_eqI) (auto simp: bit_simps)

lemma and_not_63: "(x :: u64) AND NOT 63 = push_bit 6 (drop_bit 6 x)"
proof -
  have "(63 :: u64) = mask 6" by (simp add: mask_eq_exp_minus_1)
  then show ?thesis by (simp only: and_not_mask_push_drop)
qed

lemma unat_round64:
  "unat ((x :: u64) AND NOT 63) = (unat x div 64) * 64"
proof -
  have "unat (x AND NOT 63) = unat (push_bit 6 (drop_bit 6 x))"
    by (simp only: and_not_63)
  also have "\<dots> = take_bit 64 (push_bit 6 (unat x div 64))"
    by (simp add: unsigned_push_bit_eq unat_drop_bit_eq drop_bit_eq_div unat_div)
  also have "\<dots> = push_bit 6 (unat x div 64)"
  proof (rule take_bit_nat_eq_self)
    have "unat x div 64 * 64 \<le> unat x" by simp
    also have "\<dots> < 2 ^ 64" using unsigned_less [of x] by simp
    finally show "push_bit 6 (unat x div 64) < 2 ^ 64" by (simp add: push_bit_eq_mult)
  qed
  also have "\<dots> = (unat x div 64) * 64" by (simp add: push_bit_eq_mult)
  finally show ?thesis .
qed

lemma unat_round64_minus: "unat ((x :: u64) AND - 64) = (unat x div 64) * 64"
  using unat_round64 [of x] by simp

lemma unat_ucast_32_64: "unat (ucast (x :: u32) :: u64) = unat x"
  by (simp add: unsigned_ucast_eq take_bit_nat_eq_self
      order_less_trans [OF unsigned_less [of x]])

lemma npages_eq:
  assumes "ps \<noteq> 0" and "sz \<noteq> 0" and "(unat sz - 1) div unat ps < 2 ^ 32"
  shows "npages sz ps = Some (bit_len ((unat sz - 1) div unat ps))"
proof -
  have a: "unat (sz - 1) = unat sz - 1" using assms(2) by (simp add: unat_minus_one)
  have b: "unat ((sz - 1) div ucast ps) = (unat sz - 1) div unat ps"
    by (simp add: unat_div a unat_ucast_32_64)
  have "unat (ucast ((sz - 1) div ucast ps) :: u32) = (unat sz - 1) div unat ps"
    using assms(3) by (simp add: unsigned_ucast_eq b take_bit_nat_eq_self)
  then show ?thesis
    using assms(1) by (simp add: npages_def fls_eq)
qed

lemma unat_pages: "n \<le> 32 \<Longrightarrow> unat (push_bit n (1 :: u64)) = 2 ^ n"
  by (simp add: push_bit_of_1 unat_2p)

lemma unat_cq_size:
  "unat ((KRING_SIZE + ucast (c :: u32) * sizeof_io_uring_cqe + 63) AND NOT 63)
     = (320 + unat c * 16 + 63) div 64 * 64"
proof -
  have c: "unat c < 2 ^ 32" using unsigned_less [of c] by simp
  have m: "unat (ucast c * (16 :: u64)) = unat c * 16"
    using c by (simp add: unat_word_ariths unat_ucast_32_64)
  have "unat (320 + ucast c * (16 :: u64) + 63) = 320 + unat c * 16 + 63"
    using c by (simp add: unat_word_ariths unat_ucast_32_64)
  then show ?thesis
    by (simp add: unat_round64_minus KRING_SIZE_def sizeof_io_uring_cqe_def)
qed

lemma unat_sq_size:
  "unat (sizeof_io_uring_sqe * ucast (e :: u32)) = 64 * unat e"
proof -
  have c: "unat e < 2 ^ 32" using unsigned_less [of e] by simp
  show ?thesis
    using c by (simp add: unat_word_ariths unat_ucast_32_64 sizeof_io_uring_sqe_def)
qed

lemma region_pages:
  assumes ps: "ps \<noteq> 0" and sz: "unat sz \<noteq> 0" and small: "unat sz < 2 ^ 22"
  shows "\<exists>n. npages sz ps = Some n \<and> n \<le> 22 \<and> unat sz \<le> 2 ^ n * unat ps \<and>
             (\<forall>j. unat sz \<le> 2 ^ j * unat ps \<longrightarrow> n \<le> j)"
proof -
  let ?q = "(unat sz - 1) div unat ps"
  have ups: "0 < unat ps" using ps by (simp add: unat_gt_0)
  have "?q \<le> unat sz - 1" by (rule div_le_dividend)
  then have q22: "?q < 2 ^ 22" using small by linarith
  then have q32: "?q < 2 ^ 32" by simp
  have sz0: "sz \<noteq> 0" using sz by (auto simp: unat_eq_0)
  have np: "npages sz ps = Some (bit_len ?q)"
    using ps sz0 q32 by (rule npages_eq)
  have pos: "0 < unat sz" using sz by simp
  have "bit_len ?q \<le> 22" using q22 by (rule bit_len_bound)
  moreover have "unat sz \<le> 2 ^ bit_len ?q * unat ps"
    using bit_len_div_le_iff [OF pos ups, of "bit_len ?q"] by simp
  moreover have "\<forall>j. unat sz \<le> 2 ^ j * unat ps \<longrightarrow> bit_len ?q \<le> j"
    using bit_len_div_le_iff [OF pos ups] by simp
  ultimately show ?thesis using np by blast
qed

lemma rings_size_1024: "rings_size 1024 2048 4096 = Some 131072"
  by (simp add: rings_size_def npages_def fls_eq bit_len.simps KRING_SIZE_def
      sizeof_io_uring_cqe_def sizeof_io_uring_sqe_def)

lemma rings_size_whole_pages_1024: "rings_size_whole_pages 1024 2048 4096 = 102400"
  by (simp add: rings_size_whole_pages_def pages_of_bytes_def KRING_SIZE_def
      sizeof_io_uring_cqe_def sizeof_io_uring_sqe_def)

text \<open>
  Claim C7, as the specification states it, at the depths negotiated for a request of
  1024 entries and a page of 4096 bytes. The completion region has 33088 bytes: whole
  pages would be 9, the code counts 16. The function returns 131072 bytes, the sum of
  whole pages is 102400 bytes.
\<close>

theorem rings_size_not_whole_pages:
  "rings_size 1024 2048 4096 = Some 131072 \<and>
   rings_size_whole_pages 1024 2048 4096 = 102400 \<and>
   rings_size 1024 2048 4096 \<noteq> Some (word_of_nat (rings_size_whole_pages 1024 2048 4096))"
  by (simp add: rings_size_1024 rings_size_whole_pages_1024)

text \<open>
  Claim C7, amended. For a page size other than zero, a submission depth from 1 to 32768
  and a completion depth up to 65536, the layout calculator returns the sum of two page
  counts times the page size, where each page count is a power of two: the least power
  of two of pages that holds the region. The completion region is the header of 320
  bytes plus 16 bytes for every completion entry, rounded up to a multiple of 64; the
  submission region is 64 bytes for every submission entry.
\<close>

theorem rings_size_pow2_pages:
  assumes "page_size \<noteq> 0" and "entries \<noteq> 0" and "entries \<le> 32768"
      and "cq_entries' \<le> 65536"
  shows "\<exists>n m r. rings_size entries cq_entries' page_size = Some r \<and>
           unat r = (2 ^ n + 2 ^ m) * unat page_size \<and>
           (320 + unat cq_entries' * 16 + 63) div 64 * 64 \<le> 2 ^ n * unat page_size \<and>
           (\<forall>j. (320 + unat cq_entries' * 16 + 63) div 64 * 64 \<le> 2 ^ j * unat page_size
                  \<longrightarrow> n \<le> j) \<and>
           64 * unat entries \<le> 2 ^ m * unat page_size \<and>
           (\<forall>j. 64 * unat entries \<le> 2 ^ j * unat page_size \<longrightarrow> m \<le> j)"
proof -
  let ?cq = "(KRING_SIZE + ucast cq_entries' * sizeof_io_uring_cqe + 63) AND NOT 63"
  let ?sq = "sizeof_io_uring_sqe * (ucast entries :: u64)"
  have e: "0 < unat entries" "unat entries \<le> 32768"
    using assms(2,3) by (simp_all add: unat_gt_0 word_le_nat_alt)
  have c: "unat cq_entries' \<le> 65536"
    using assms(4) by (simp add: word_le_nat_alt)
  have ucq: "unat ?cq = (320 + unat cq_entries' * 16 + 63) div 64 * 64"
    by (rule unat_cq_size)
  have usq: "unat ?sq = 64 * unat entries" by (rule unat_sq_size)
  have cq_pos: "unat ?cq \<noteq> 0" unfolding ucq by simp
  have cq_small: "unat ?cq < 2 ^ 22" unfolding ucq using c by simp
  have sq_pos: "unat ?sq \<noteq> 0" unfolding usq using e by simp
  have sq_small: "unat ?sq < 2 ^ 22" unfolding usq using e by simp
  from region_pages [OF assms(1) cq_pos cq_small] obtain n where
    n: "npages ?cq page_size = Some n" "n \<le> 22" "unat ?cq \<le> 2 ^ n * unat page_size"
       "\<forall>j. unat ?cq \<le> 2 ^ j * unat page_size \<longrightarrow> n \<le> j" by blast
  from region_pages [OF assms(1) sq_pos sq_small] obtain m where
    m: "npages ?sq page_size = Some m" "m \<le> 22" "unat ?sq \<le> 2 ^ m * unat page_size"
       "\<forall>j. unat ?sq \<le> 2 ^ j * unat page_size \<longrightarrow> m \<le> j" by blast
  let ?r = "(push_bit n (1 :: u64) + push_bit m 1) * ucast page_size"
  have rs: "rings_size entries cq_entries' page_size = Some ?r"
    using n(1) m(1) by (simp add: rings_size_def Let_def)
  have pn: "unat (push_bit n (1 :: u64)) = 2 ^ n" using n(2) by (intro unat_pages) simp
  have pm: "unat (push_bit m (1 :: u64)) = 2 ^ m" using m(2) by (intro unat_pages) simp
  have bn: "(2::nat) ^ n \<le> 2 ^ 22" using n(2) by (rule power_increasing) simp
  have bm: "(2::nat) ^ m \<le> 2 ^ 22" using m(2) by (rule power_increasing) simp
  have sum: "unat (push_bit n (1 :: u64) + push_bit m 1) = 2 ^ n + 2 ^ m"
    using bn bm by (simp add: unat_word_ariths pn pm del: push_bit_of_1)
  have ps: "unat page_size < 2 ^ 32" using unsigned_less [of page_size] by simp
  have "(2 ^ n + 2 ^ m) * unat page_size < 2 ^ 23 * 2 ^ 32"
    using bn bm ps by (intro mult_le_less_imp_less) simp_all
  then have "(2 ^ n + 2 ^ m) * unat page_size < 2 ^ 64" by simp
  then have "unat (push_bit n (1 :: u64) + push_bit m 1) * unat (ucast page_size :: u64)
               < 2 ^ LENGTH(64)"
    by (simp only: sum unat_ucast_32_64) simp
  then have "unat ?r = unat (push_bit n (1 :: u64) + push_bit m 1) * unat (ucast page_size :: u64)"
    by (simp only: unat_mult_lem)
  then have ur: "unat ?r = (2 ^ n + 2 ^ m) * unat page_size"
    by (simp only: sum unat_ucast_32_64)
  show ?thesis
    using rs ur n(3,4) m(3,4) unfolding ucq usq by blast
qed

theorem rings_size_pow2_pages_witness:
  "(4096 :: u32) \<noteq> 0 \<and> (1024 :: u32) \<noteq> 0 \<and> (1024 :: u32) \<le> 32768 \<and> (2048 :: u32) \<le> 65536 \<and>
   (\<exists>n m r. rings_size 1024 2048 4096 = Some r \<and> unat r = (2 ^ n + 2 ^ m) * unat (4096 :: u32))"
proof -
  have h: "(4096 :: u32) \<noteq> 0" "(1024 :: u32) \<noteq> 0" "(1024 :: u32) \<le> 32768"
    "(2048 :: u32) \<le> 65536" by simp_all
  from rings_size_pow2_pages [OF h] h show ?thesis by blast
qed

section \<open>The world only grows\<close>

lemma extends_refl [simp]: "extends w w"
  by (auto simp: extends_def intro: exI [of _ "[]"])

lemma extends_trans: "extends w w' \<Longrightarrow> extends w' w'' \<Longrightarrow> extends w w''"
  by (auto simp: extends_def)

lemma extends_page_size: "extends w w' \<Longrightarrow> get_page_size w' = get_page_size w"
  by (auto simp: extends_def)

lemma extends_munmap [simp]: "extends w w' \<Longrightarrow> extends w (uring_munmap w' a l)"
  by (auto simp: extends_def uring_munmap_def)

lemma extends_close [simp]: "extends w w' \<Longrightarrow> extends w (uring_close w' fd)"
  by (auto simp: extends_def uring_close_def)

lemma extends_memset [simp]: "extends w w' \<Longrightarrow> extends w (memset0 w' a l)"
  by (auto simp: extends_def memset0_def)

lemma extends_mmap [simp]:
  "extends w w' \<Longrightarrow> extends w (snd (uring_mmap w' a l pr fl fd off))"
  by (auto simp: extends_def uring_mmap_def Let_def)

lemma extends_setup [simp]:
  "extends w w' \<Longrightarrow> extends w (snd (snd (sys_io_uring_setup w' e p)))"
  by (auto simp: extends_def sys_io_uring_setup_def Let_def split: prod.splits)

lemma extends_unmap_rings [simp]:
  "extends w w' \<Longrightarrow> extends w (io_uring_unmap_rings w' sq cq)"
  by (simp add: io_uring_unmap_rings_def Let_def)

lemma extends_mmap_sqes [simp]:
  "extends w w' \<Longrightarrow> extends w (snd (snd (snd (io_uring_mmap_sqes w' fd p sq cq))))"
  by (simp add: io_uring_mmap_sqes_def io_uring_mmap_err_def Let_def case_prod_beta)

lemma extends_io_uring_mmap [simp]:
  "extends w w' \<Longrightarrow> extends w (snd (snd (snd (io_uring_mmap w' fd p sq cq))))"
  by (simp add: io_uring_mmap_def io_uring_mmap_err_def Let_def case_prod_beta)

lemma extends_queue_mmap [simp]:
  "extends w w' \<Longrightarrow> extends w (snd (snd (io_uring_queue_mmap w' fd p ring)))"
  by (simp add: io_uring_queue_mmap_def Let_def case_prod_beta)

lemma extends_alloc_huge [simp]:
  "extends w w' \<Longrightarrow>
   extends w (snd (snd (snd (snd (io_uring_alloc_huge w' entries p sq cq buf buf_size)))))"
  by (simp add: io_uring_alloc_huge_def io_uring_alloc_huge_used_def Let_def case_prod_beta)

lemma extends_create [simp]:
  "extends w w' \<Longrightarrow>
   extends w (snd (snd (snd (io_uring_queue_init_params_create w' entries ring p ret))))"
  by (simp add: io_uring_queue_init_params_create_def Let_def case_prod_beta)

lemma extends_init_params0 [simp]:
  "extends w w' \<Longrightarrow>
   extends w (snd (snd (snd (io_uring_queue_init_params0 w' entries ring p buf buf_size))))"
  by (simp add: io_uring_queue_init_params0_def Let_def case_prod_beta)

lemma extends_init_params [simp]:
  "extends w w' \<Longrightarrow>
   extends w (snd (snd (snd (io_uring_queue_init_params w' entries ring p))))"
  by (simp add: io_uring_queue_init_params_def Let_def case_prod_beta)

lemma extends_exit [simp]:
  "extends w w' \<Longrightarrow> extends w (io_uring_queue_exit w' ring)"
  by (simp add: io_uring_queue_exit_def Let_def)

section \<open>Properties of the memlock estimate\<close>

lemma gsce_max:
  "KERN_MAX_ENTRIES < entries \<Longrightarrow> flags p AND IORING_SETUP_CLAMP \<noteq> 0 \<Longrightarrow>
   get_sq_cq_entries KERN_MAX_ENTRIES p a b = get_sq_cq_entries entries p a b"
  by (auto simp add: get_sq_cq_entries_def KERN_MAX_ENTRIES_def)

lemma gsce_indep:
  "get_sq_cq_entries entries p a' b' =
     (case get_sq_cq_entries entries p a b of
        (r, q, s, c) \<Rightarrow> if r = 0 then (r, q, s, c) else (r, q, a', b'))"
  by (simp add: get_sq_cq_entries_def Let_def EINVAL_def)

lemma gsce_outputs:
  assumes "get_sq_cq_entries entries p a b = (0, p', sq, cq)"
  shows "get_sq_cq_entries entries p a' b' = (0, p', sq, cq)"
  using gsce_indep [of entries p a' b' a b] assms by simp

lemma gsce_failure:
  assumes "get_sq_cq_entries entries p a b = (cret, p', sq, cq)" and "cret \<noteq> 0"
  shows "get_sq_cq_entries entries p a' b' = (- EINVAL, p, a', b')" and "cret = - EINVAL"
  using gsce_indep [of entries p a' b' a b] gsce_cases [of entries p a b] assms
  by (auto simp: EINVAL_def)

lemma gsce_zero: "get_sq_cq_entries 0 p a b = (- EINVAL, p, a, b)"
  by (simp add: get_sq_cq_entries_def)

lemma gsce_too_big:
  "entries > KERN_MAX_ENTRIES \<Longrightarrow> flags p AND IORING_SETUP_CLAMP = 0 \<Longrightarrow>
   get_sq_cq_entries entries p a b = (- EINVAL, p, a, b)"
  by (auto simp add: get_sq_cq_entries_def)

lemma mlock_page_size:
  assumes "io_uring_queue_init_params w entries zero_ring zero_params = (ret, ring, lp, w1)"
  shows "get_page_size (if ret = 0 then io_uring_queue_exit w1 ring else w1) = get_page_size w"
proof -
  have "extends w (snd (snd (snd (io_uring_queue_init_params w entries zero_ring zero_params))))"
    by simp
  then have "extends w w1" using assms by simp
  then have "extends w (if ret = 0 then io_uring_queue_exit w1 ring else w1)" by simp
  then show ?thesis by (rule extends_page_size)
qed

lemma probe_maps_nothing:
  "fst (io_uring_queue_init_params kernel_maps_nothing 1024 zero_ring zero_params) = - 12"
  by (simp add: io_uring_queue_init_params_def io_uring_queue_init_params0_def
      io_uring_queue_init_params_create_def mmap_defs Let_def kernel_maps_nothing_def os_defs
      const_defs zero_defs int_of_long_def PTR_ERR_def)

lemma estimate_maps_nothing:
  "fst (io_uring_mlock_size_params kernel_maps_nothing 1024 zero_params) = Some 0"
  by (simp add: io_uring_mlock_size_params_def io_uring_queue_init_params_def
      io_uring_queue_init_params0_def io_uring_queue_init_params_create_def mmap_defs Let_def
      kernel_maps_nothing_def os_defs const_defs zero_defs int_of_long_def PTR_ERR_def)

lemma probe_fills_then_fails:
  "fst (io_uring_queue_init_params kernel_fills_then_fails 1024 zero_ring zero_params) = - 24"
  by (simp add: io_uring_queue_init_params_def io_uring_queue_init_params0_def
      io_uring_queue_init_params_create_def Let_def kernel_fills_then_fails_def os_defs
      const_defs zero_defs)

lemma estimate_fills_then_fails:
  "fst (io_uring_mlock_size_params kernel_fills_then_fails 1024 zero_params) = Some 0"
  by (simp add: io_uring_mlock_size_params_def io_uring_queue_init_params_def
      io_uring_queue_init_params0_def io_uring_queue_init_params_create_def Let_def
      kernel_fills_then_fails_def os_defs const_defs zero_defs)

text \<open>
  Claim C8, as the specification states it, at a request of 1024 entries with default
  flags. On \<open>kernel_maps_nothing\<close> the throwaway ring is not created: the attempt returns
  \<open>- 12\<close>. On \<open>kernel_fills_then_fails\<close> it returns \<open>- 24\<close>. A legacy kernel would get the
  figure of the layout calculator for the negotiated depths 1024 and 2048, which is
  131072 bytes. The estimate is 0 on both: the feature bit is tested whether or not the
  attempt succeeded.
\<close>

theorem io_uring_mlock_size_params_failed_probe_not_legacy:
  "fst (io_uring_queue_init_params kernel_maps_nothing 1024 zero_ring zero_params) = - 12 \<and>
   fst (io_uring_mlock_size_params kernel_maps_nothing 1024 zero_params) = Some 0 \<and>
   fst (io_uring_queue_init_params kernel_fills_then_fails 1024 zero_ring zero_params) = - 24 \<and>
   fst (io_uring_mlock_size_params kernel_fills_then_fails 1024 zero_params) = Some 0 \<and>
   get_sq_cq_entries 1024 zero_params 0 0 = (0, zero_params, 1024, 2048) \<and>
   get_page_size kernel_maps_nothing = 4096 \<and> get_page_size kernel_fills_then_fails = 4096 \<and>
   rings_size 1024 2048 4096 = Some 131072"
  by (simp add: probe_maps_nothing estimate_maps_nothing probe_fills_then_fails
      estimate_fills_then_fails negotiate_1024 rings_size_1024)
     (simp add: kernel_maps_nothing_def kernel_fills_then_fails_def)

text \<open>
  Claim C8, amended. Let \<open>lp\<close> be the parameter block after the attempt to create the
  throwaway ring, whatever that attempt returned. If \<open>lp\<close> reports
  \<^verbatim>\<open>IORING_FEAT_NATIVE_WORKERS\<close>, the estimate is exactly 0. Otherwise, if depth negotiation
  on the request fails, the estimate is \<open>- EINVAL\<close>, and if it succeeds with depths
  \<open>sq\<close> and \<open>cq\<close>, the estimate is what the layout calculator returns for \<open>sq\<close>, \<open>cq\<close> and
  the page size. The return value of the attempt does not occur in the result: a failure
  to create the throwaway ring is not propagated, and it is treated as a legacy kernel,
  with the bytes counted, when it has left the feature bits of \<open>lp\<close> zero.
\<close>

theorem io_uring_mlock_size_params_result:
  assumes probe: "io_uring_queue_init_params w entries zero_ring zero_params = (ret, ring, lp, w1)"
      and nego: "get_sq_cq_entries entries p sq0 cq0 = (cret, p', sq, cq)"
  shows "(features lp AND IORING_FEAT_NATIVE_WORKERS \<noteq> 0 \<longrightarrow>
            fst (io_uring_mlock_size_params w entries p) = Some 0) \<and>
         (features lp AND IORING_FEAT_NATIVE_WORKERS = 0 \<and> cret \<noteq> 0 \<longrightarrow>
            cret = - EINVAL \<and> fst (io_uring_mlock_size_params w entries p) = Some (- EINVAL)) \<and>
         (features lp AND IORING_FEAT_NATIVE_WORKERS = 0 \<and> cret = 0 \<longrightarrow>
            fst (io_uring_mlock_size_params w entries p)
              = map_option sint (rings_size sq cq (ucast (get_page_size w)))) \<and>
         (ret \<noteq> 0 \<and> features lp = 0 \<longrightarrow>
            fst (io_uring_mlock_size_params w entries p)
              = (if cret \<noteq> 0 then Some (- EINVAL)
                 else map_option sint (rings_size sq cq (ucast (get_page_size w)))))"
proof -
  have native: "features lp AND IORING_FEAT_NATIVE_WORKERS \<noteq> 0 \<longrightarrow>
      fst (io_uring_mlock_size_params w entries p) = Some 0"
    using probe by (simp add: io_uring_mlock_size_params_def Let_def)
  have invalid: "features lp AND IORING_FEAT_NATIVE_WORKERS = 0 \<and> cret \<noteq> 0 \<longrightarrow>
      cret = - EINVAL \<and> fst (io_uring_mlock_size_params w entries p) = Some (- EINVAL)"
  proof (intro impI conjI)
  assume h: "features lp AND IORING_FEAT_NATIVE_WORKERS = 0 \<and> cret \<noteq> 0"
  then show "cret = - EINVAL" using gsce_failure(2) [OF nego] by simp
  have f: "get_sq_cq_entries entries p 0 0 = (- EINVAL, p, 0, 0)"
    using gsce_failure(1) [OF nego] h by simp
  have ne: "- EINVAL \<noteq> (0::int)" by (simp add: EINVAL_def)
  show "fst (io_uring_mlock_size_params w entries p) = Some (- EINVAL)"
    using probe h f ne
    by (simp add: io_uring_mlock_size_params_def Let_def gsce_max)
  qed
  have counted: "features lp AND IORING_FEAT_NATIVE_WORKERS = 0 \<and> cret = 0 \<longrightarrow>
      fst (io_uring_mlock_size_params w entries p)
        = map_option sint (rings_size sq cq (ucast (get_page_size w)))"
  proof (intro impI)
  assume h: "features lp AND IORING_FEAT_NATIVE_WORKERS = 0 \<and> cret = 0"
  then have s: "get_sq_cq_entries entries p 0 0 = (0, p', sq, cq)"
    using gsce_outputs nego by blast
  have e0: "entries \<noteq> 0"
    using s gsce_zero [of p 0 0] by (auto simp: EINVAL_def)
  have big: "\<not> (entries > KERN_MAX_ENTRIES \<and> flags p AND IORING_SETUP_CLAMP = 0)"
    using s gsce_too_big [of entries p 0 0] by (auto simp: EINVAL_def)
  show "fst (io_uring_mlock_size_params w entries p)
          = map_option sint (rings_size sq cq (ucast (get_page_size w)))"
  proof (cases "entries > KERN_MAX_ENTRIES")
    case True
    with big have "flags p AND IORING_SETUP_CLAMP \<noteq> 0" by simp
    with True show ?thesis
      using probe h s e0 mlock_page_size [OF probe]
      by (simp add: io_uring_mlock_size_params_def Let_def gsce_max)
  next
    case False
    then show ?thesis
      using probe h s e0 mlock_page_size [OF probe]
      by (simp add: io_uring_mlock_size_params_def Let_def gsce_max)
  qed
  qed
  have legacy: "ret \<noteq> 0 \<and> features lp = 0 \<longrightarrow>
      fst (io_uring_mlock_size_params w entries p)
        = (if cret \<noteq> 0 then Some (- EINVAL)
           else map_option sint (rings_size sq cq (ucast (get_page_size w))))"
    using invalid counted by auto
  from native invalid counted legacy show ?thesis by blast
qed

lemma probe_native:
  "\<exists>ret ring lp w1. io_uring_queue_init_params kernel_native 1024 zero_ring zero_params
       = (ret, ring, lp, w1) \<and> features lp = IORING_FEAT_NATIVE_WORKERS"
  by (simp add: io_uring_queue_init_params_def io_uring_queue_init_params0_def
      io_uring_queue_init_params_create_def mmap_defs Let_def kernel_native_def os_defs
      const_defs zero_defs)

lemma probe_refused:
  "\<exists>ring w1. io_uring_queue_init_params kernel_refuses entries zero_ring zero_params
       = (- 12, ring, zero_params, w1)"
  by (simp add: io_uring_queue_init_params_def io_uring_queue_init_params0_def
      io_uring_queue_init_params_create_def Let_def kernel_refuses_def os_defs
      const_defs zero_defs)

theorem io_uring_mlock_size_params_result_witness:
  "fst (io_uring_mlock_size_params kernel_native 1024 zero_params) = Some 0 \<and>
   fst (io_uring_mlock_size_params kernel_refuses 1024 zero_params) = Some 131072 \<and>
   fst (io_uring_mlock_size_params kernel_refuses 0 zero_params) = Some (- EINVAL)"
proof -
  obtain ret ring lp w1 where
    n: "io_uring_queue_init_params kernel_native 1024 zero_ring zero_params = (ret, ring, lp, w1)"
       "features lp = IORING_FEAT_NATIVE_WORKERS"
    using probe_native by blast
  obtain ring' w1' where
    r: "io_uring_queue_init_params kernel_refuses 1024 zero_ring zero_params
          = (- 12, ring', zero_params, w1')"
    using probe_refused by blast
  obtain ring'' w1'' where
    z: "io_uring_queue_init_params kernel_refuses 0 zero_ring zero_params
          = (- 12, ring'', zero_params, w1'')"
    using probe_refused by blast
  have a: "fst (io_uring_mlock_size_params kernel_native 1024 zero_params) = Some 0"
    using io_uring_mlock_size_params_result [OF n(1) negotiate_1024] n(2)
    by (simp add: IORING_FEAT_NATIVE_WORKERS_def)
  have b: "fst (io_uring_mlock_size_params kernel_refuses 1024 zero_params) = Some 131072"
    using io_uring_mlock_size_params_result [OF r negotiate_1024]
    by (simp add: zero_params_def kernel_refuses_def rings_size_1024)
  have c: "fst (io_uring_mlock_size_params kernel_refuses 0 zero_params) = Some (- EINVAL)"
    using io_uring_mlock_size_params_result [OF z gsce_zero [of zero_params 0 0]]
    by (simp add: zero_params_def EINVAL_def)
  from a b c show ?thesis by blast
qed

section \<open>Properties of the region mapper\<close>

lemma resident_snoc [simp]: "resident (tr @ [e]) = resident_step (resident tr) e"
  by (simp add: resident_def)

lemma resident_Nil [simp]: "resident [] = []"
  by (simp add: resident_def)

lemma uint_IS_ERR: "IS_ERR p \<Longrightarrow> 2 ^ 64 - 4095 \<le> uint p"
  by (simp add: IS_ERR_def word_le_def)

lemma mod_once:
  fixes x m :: int
  assumes "m \<le> x" and "x < 2 * m"
  shows "x mod m = x - m"
proof -
  have "(x - m) mod m = x - m" using assms by (intro mod_pos_pos_trivial) simp_all
  then show ?thesis by simp
qed

lemma PTR_ERR_value:
  assumes "IS_ERR p"
  shows "int_of_long (PTR_ERR p) = uint p - 2 ^ 64"
proof -
  have lo: "2 ^ 64 - 4095 \<le> uint p" using assms by (rule uint_IS_ERR)
  have hi: "uint p < 2 ^ 64" using uint_lt2p [of p] by simp
  have "(uint p + 2 ^ 63) mod 2 ^ 64 = uint p + 2 ^ 63 - 2 ^ 64"
    using lo hi by (intro mod_once) simp_all
  then have "take_bit 64 (uint p + 2 ^ 63) = uint p - 2 ^ 63"
    by (simp add: take_bit_eq_mod)
  then have s: "sint p = uint p - 2 ^ 64"
    by (simp add: sint_uint signed_take_bit_eq_take_bit_shift)
  have t: "signed_take_bit 31 (uint p - 2 ^ 64) = uint p - 2 ^ 64"
    using lo hi by (intro signed_take_bit_int_eq_self) simp_all
  have "int_of_long (PTR_ERR p) = sint (word_of_int (uint p - 2 ^ 64) :: u32)"
    by (simp only: int_of_long_def PTR_ERR_def s)
  also have "\<dots> = signed_take_bit (LENGTH(32) - 1) (uint p - 2 ^ 64)"
    by (rule sint_sbintrunc')
  also have "\<dots> = uint p - 2 ^ 64" using t by simp
  finally show ?thesis .
qed

lemma IS_ERR_negative: "IS_ERR p \<Longrightarrow> int_of_long (PTR_ERR p) < 0"
  using uint_lt2p [of p] by (simp add: PTR_ERR_value)

lemma mmap_freshD:
  assumes "mmap_fresh w" and "\<not> IS_ERR (mmap_ret w tr addr len prot flgs fd off)"
  shows "len \<noteq> 0" and "mmap_ret w tr addr len prot flgs fd off \<noteq> 0"
    and "mmap_ret w tr addr len prot flgs fd off \<notin> fst ` set (resident tr)"
  using assms unfolding mmap_fresh_def by blast+

lemma resident_unmap_rings:
  "resident (trace (io_uring_unmap_rings w sq cq)) =
     (let m = resident (trace w);
          m = (if sq_ring_sz sq \<noteq> 0 then remove1 (sq_ring_ptr sq, sq_ring_sz sq) m else m)
      in if cq_ring_ptr cq \<noteq> 0 \<and> cq_ring_sz cq \<noteq> 0 \<and> cq_ring_ptr cq \<noteq> sq_ring_ptr sq
         then remove1 (cq_ring_ptr cq, cq_ring_sz cq) m else m)"
  by (simp add: io_uring_unmap_rings_def uring_munmap_def Let_def)

lemma mmap_sqes_failure:
  assumes "io_uring_mmap_sqes w fd p sq cq = (ret, sq', cq', w')" and "ret \<noteq> 0"
  shows "ret < 0"
    and "resident (trace w') = resident (trace (io_uring_unmap_rings w sq cq))"
  using assms
  by (auto simp: io_uring_mmap_sqes_def io_uring_mmap_err_def uring_mmap_def Let_def
      resident_unmap_rings IS_ERR_negative split: if_splits prod.splits)

text \<open>
  Claim C6. On a kernel that keeps the promise of \<^verbatim>\<open>mmap\<close> (\<open>mmap_fresh\<close>), whenever
  \<^verbatim>\<open>io_uring_mmap\<close> fails, whichever of its mapping calls failed, the value it returns is
  negative and the resident mappings after the call are the resident mappings before
  the call: everything the call had mapped has been unmapped again.
\<close>

theorem io_uring_mmap_unwinds:
  assumes fresh: "mmap_fresh w"
      and call: "io_uring_mmap w fd p sq cq = (ret, sq', cq', w')"
      and fail: "ret \<noteq> 0"
  shows "ret < 0 \<and> resident (trace w') = resident (trace w)"
proof -
  define single where "single \<longleftrightarrow> features p AND IORING_FEAT_SINGLE_MMAP \<noteq> 0"
  define ssz0 where "ssz0 = (ucast (sqo_array (sq_off p)) + ucast (sq_entries p) * sizeof_unsigned :: u64)"
  define csz0 where "csz0 = (ucast (cqo_cqes (cq_off p)) + ucast (cq_entries p) * sizeof_io_uring_cqe :: u64)"
  define ssz where "ssz = (if single \<and> csz0 > ssz0 then csz0 else ssz0)"
  define csz where "csz = (if single then ssz else csz0)"
  define prot where "prot = PROT_READ OR PROT_WRITE"
  define flgs where "flgs = MAP_SHARED OR MAP_POPULATE"
  define r1 where "r1 = mmap_ret w (trace w) 0 ssz prot flgs fd IORING_OFF_SQ_RING"
  define w1 where "w1 = w\<lparr>trace := trace w @ [Mmap 0 ssz prot flgs fd IORING_OFF_SQ_RING r1]\<rparr>"
  define sq1 where "sq1 = sq\<lparr>sq_ring_sz := ssz, sq_ring_ptr := r1\<rparr>"
  define cq1 where "cq1 = cq\<lparr>cq_ring_sz := csz\<rparr>"
  define r2 where "r2 = mmap_ret w (trace w1) 0 csz prot flgs fd IORING_OFF_CQ_RING"
  define w2 where "w2 = w1\<lparr>trace := trace w1 @ [Mmap 0 csz prot flgs fd IORING_OFF_CQ_RING r2]\<rparr>"
  note defs = single_def ssz0_def csz0_def ssz_def csz_def prot_def flgs_def r1_def w1_def
    sq1_def cq1_def r2_def w2_def
  show ?thesis
  proof (cases "IS_ERR r1")
    case True
    then have "io_uring_mmap w fd p sq cq = (int_of_long (PTR_ERR r1), sq1, cq1, w1)"
      by (auto simp add: io_uring_mmap_def Let_def uring_mmap_def defs split: if_splits)
    with call True show ?thesis
      by (auto simp: w1_def IS_ERR_negative)
  next
    case ok1: False
    have s1: "ssz \<noteq> 0" "r1 \<noteq> 0"
      unfolding r1_def
      by (rule mmap_freshD [OF fresh ok1 [unfolded r1_def]])+
    have res1: "resident (trace w1) = (r1, ssz) # resident (trace w)"
      using ok1 by (simp add: w1_def)
    show ?thesis
    proof (cases single)
      case True
      have "io_uring_mmap w fd p sq cq
              = io_uring_mmap_sqes w1 fd p sq1 (cq1\<lparr>cq_ring_ptr := r1\<rparr>)"
        using ok1 True by (auto simp add: io_uring_mmap_def Let_def uring_mmap_def defs split: if_splits)
      with call have c: "io_uring_mmap_sqes w1 fd p sq1 (cq1\<lparr>cq_ring_ptr := r1\<rparr>)
                          = (ret, sq', cq', w')" by simp
      from mmap_sqes_failure [OF c fail] s1 res1 show ?thesis
        by (simp add: resident_unmap_rings sq1_def cq1_def)
    next
      case dual: False
      show ?thesis
      proof (cases "IS_ERR r2")
        case True
        have "io_uring_mmap w fd p sq cq
                = io_uring_mmap_err w2 sq1 (cq1\<lparr>cq_ring_ptr := 0\<rparr>) (int_of_long (PTR_ERR r2))"
          using ok1 dual True by (auto simp add: io_uring_mmap_def Let_def uring_mmap_def defs split: if_splits)
        with call have "ret = int_of_long (PTR_ERR r2)"
          and "w' = io_uring_unmap_rings w2 sq1 (cq1\<lparr>cq_ring_ptr := 0\<rparr>)"
          by (auto simp: io_uring_mmap_err_def)
        moreover have "resident (trace w2) = (r1, ssz) # resident (trace w)"
          using True res1 by (simp add: w2_def)
        ultimately show ?thesis
          using True s1 by (simp add: resident_unmap_rings sq1_def cq1_def IS_ERR_negative)
      next
        case ok2: False
        have s2: "csz \<noteq> 0" "r2 \<noteq> 0" "r2 \<notin> fst ` set (resident (trace w1))"
          unfolding r2_def
          by (rule mmap_freshD [OF fresh ok2 [unfolded r2_def]])+
        have ne: "r2 \<noteq> r1" using s2(3) res1 by auto
        have res2: "resident (trace w2) = (r2, csz) # (r1, ssz) # resident (trace w)"
          using ok2 res1 by (simp add: w2_def)
        have "io_uring_mmap w fd p sq cq
                = io_uring_mmap_sqes w2 fd p sq1 (cq1\<lparr>cq_ring_ptr := r2\<rparr>)"
          using ok1 dual ok2 by (auto simp add: io_uring_mmap_def Let_def uring_mmap_def defs split: if_splits)
        with call have c: "io_uring_mmap_sqes w2 fd p sq1 (cq1\<lparr>cq_ring_ptr := r2\<rparr>)
                            = (ret, sq', cq', w')" by simp
        from mmap_sqes_failure [OF c fail] s1 s2 ne res2 show ?thesis
          by (simp add: resident_unmap_rings sq1_def cq1_def)
      qed
    qed
  qed
qed

lemma kernel_one_mapping_fresh: "mmap_fresh kernel_one_mapping"
  by (simp add: mmap_fresh_def kernel_one_mapping_def IS_ERR_def)

lemma one_mapping_call:
  "io_uring_mmap kernel_one_mapping 3 params_8 zero_sq zero_cq =
     (- 12, zero_sq\<lparr>sq_ring_sz := 96, sq_ring_ptr := 0x7F0000000000\<rparr>,
      zero_cq\<lparr>cq_ring_sz := 320\<rparr>,
      kernel_one_mapping\<lparr>trace :=
        [Mmap 0 96 3 0x8001 3 0 0x7F0000000000, Mmap 0 320 3 0x8001 3 0x8000000 (- 12),
         Munmap 0x7F0000000000 96]\<rparr>)"
  by (simp add: mmap_defs Let_def kernel_one_mapping_def params_8_def os_defs const_defs
      zero_defs int_of_long_def PTR_ERR_def resident_def)

theorem io_uring_mmap_unwinds_witness:
  "mmap_fresh kernel_one_mapping \<and>
   fst (io_uring_mmap kernel_one_mapping 3 params_8 zero_sq zero_cq) = - 12 \<and>
   trace (snd (snd (snd (io_uring_mmap kernel_one_mapping 3 params_8 zero_sq zero_cq)))) =
     [Mmap 0 96 3 0x8001 3 0 0x7F0000000000, Mmap 0 320 3 0x8001 3 0x8000000 (- 12),
      Munmap 0x7F0000000000 96] \<and>
   resident [Mmap 0 96 3 0x8001 3 0 0x7F0000000000, Mmap 0 320 3 0x8001 3 0x8000000 (- 12),
      Munmap 0x7F0000000000 96] = resident (trace kernel_one_mapping)"
  using io_uring_mmap_unwinds [OF kernel_one_mapping_fresh one_mapping_call]
    kernel_one_mapping_fresh
  by (simp add: one_mapping_call)

lemma setup_ring_pointers_regions:
  "io_uring_setup_ring_pointers p sq cq = (sq', cq') \<Longrightarrow>
   sq_ring_sz sq' = sq_ring_sz sq \<and> sq_ring_ptr sq' = sq_ring_ptr sq \<and>
   cq_ring_sz cq' = cq_ring_sz cq \<and> cq_ring_ptr cq' = cq_ring_ptr cq"
  by (auto simp: io_uring_setup_ring_pointers_def Let_def)

lemma unmap_rings_events:
  "\<exists>evs. trace (io_uring_unmap_rings w sq cq) = trace w @ evs \<and> filter is_ring_mmap evs = []"
  by (auto simp: io_uring_unmap_rings_def uring_munmap_def Let_def)

lemma mmap_sqes_regions:
  assumes "io_uring_mmap_sqes w fd p sq cq = (ret, sq', cq', w')"
  shows "\<exists>evs. trace w' = trace w @ evs \<and> filter is_ring_mmap evs = [] \<and>
           sq_ring_sz sq' = sq_ring_sz sq \<and> sq_ring_ptr sq' = sq_ring_ptr sq \<and>
           cq_ring_sz cq' = cq_ring_sz cq \<and> cq_ring_ptr cq' = cq_ring_ptr cq"
proof -
  define r where "r = mmap_ret w (trace w) 0 (ucast (sq_entries p) * sizeof_io_uring_sqe)
    (PROT_READ OR PROT_WRITE) (MAP_SHARED OR MAP_POPULATE) fd IORING_OFF_SQES"
  define e where "e = Mmap 0 (ucast (sq_entries p) * sizeof_io_uring_sqe)
    (PROT_READ OR PROT_WRITE) (MAP_SHARED OR MAP_POPULATE) fd IORING_OFF_SQES r"
  have ne: "\<not> is_ring_mmap e"
    by (simp add: e_def IORING_OFF_SQES_def IORING_OFF_SQ_RING_def IORING_OFF_CQ_RING_def)
  show ?thesis
  proof (cases "IS_ERR r")
    case True
    then have w': "w' = io_uring_unmap_rings (w\<lparr>trace := trace w @ [e]\<rparr>) (sq\<lparr>sq_sqes := r\<rparr>) cq"
      and s: "sq' = sq\<lparr>sq_sqes := r\<rparr>" "cq' = cq"
      using assms
      by (auto simp: io_uring_mmap_sqes_def io_uring_mmap_err_def uring_mmap_def Let_def
          r_def e_def)
    from unmap_rings_events [of "w\<lparr>trace := trace w @ [e]\<rparr>" "sq\<lparr>sq_sqes := r\<rparr>" cq]
    obtain evs where "trace w' = (trace w @ [e]) @ evs" "filter is_ring_mmap evs = []"
      unfolding w' by auto
    then have "trace w' = trace w @ (e # evs)" "filter is_ring_mmap (e # evs) = []"
      using ne by simp_all
    then show ?thesis using s by (intro exI [of _ "e # evs"]) simp
  next
    case False
    then have "w' = w\<lparr>trace := trace w @ [e]\<rparr>"
      and "io_uring_setup_ring_pointers p (sq\<lparr>sq_sqes := r\<rparr>) cq = (sq', cq')"
      using assms
      by (auto simp: io_uring_mmap_sqes_def uring_mmap_def Let_def r_def e_def
          split: prod.splits)
    then show ?thesis
      using ne setup_ring_pointers_regions [of p "sq\<lparr>sq_sqes := r\<rparr>" cq sq' cq']
      by (intro exI [of _ "[e]"]) simp
  qed
qed

text \<open>
  Claim C5. The events of a call of \<^verbatim>\<open>io_uring_mmap\<close> are appended to the history. With
  \<^verbatim>\<open>IORING_FEAT_SINGLE_MMAP\<close> exactly one of them is a mapping call for a ring region: it
  asks for the larger of the two computed sizes, both recorded region sizes are that
  size, and once that mapping has succeeded the base address of the completion ring is
  the base address of the submission ring. Without the capability, once the first
  mapping has succeeded, exactly two of the events are mapping calls for ring regions,
  one per ring, each with its own computed size, both shared and populated.
\<close>

theorem io_uring_mmap_regions:
  assumes call: "io_uring_mmap w fd p sq cq = (ret, sq', cq', w')"
  shows "\<exists>evs. trace w' = trace w @ evs \<and>
     (features p AND IORING_FEAT_SINGLE_MMAP \<noteq> 0 \<longrightarrow>
        filter is_ring_mmap evs =
          [Mmap 0 (max (sq_ring_bytes p) (cq_ring_bytes p)) (PROT_READ OR PROT_WRITE)
             (MAP_SHARED OR MAP_POPULATE) fd IORING_OFF_SQ_RING (sq_ring_ptr sq')] \<and>
        sq_ring_sz sq' = max (sq_ring_bytes p) (cq_ring_bytes p) \<and>
        cq_ring_sz cq' = max (sq_ring_bytes p) (cq_ring_bytes p) \<and>
        (\<not> IS_ERR (sq_ring_ptr sq') \<longrightarrow> cq_ring_ptr cq' = sq_ring_ptr sq')) \<and>
     (features p AND IORING_FEAT_SINGLE_MMAP = 0 \<and> \<not> IS_ERR (sq_ring_ptr sq') \<longrightarrow>
        (\<exists>r2. filter is_ring_mmap evs =
           [Mmap 0 (sq_ring_bytes p) (PROT_READ OR PROT_WRITE)
              (MAP_SHARED OR MAP_POPULATE) fd IORING_OFF_SQ_RING (sq_ring_ptr sq'),
            Mmap 0 (cq_ring_bytes p) (PROT_READ OR PROT_WRITE)
              (MAP_SHARED OR MAP_POPULATE) fd IORING_OFF_CQ_RING r2] \<and>
           cq_ring_ptr cq' = (if IS_ERR r2 then 0 else r2)) \<and>
        sq_ring_sz sq' = sq_ring_bytes p \<and> cq_ring_sz cq' = cq_ring_bytes p)"
proof -
  define single where "single \<longleftrightarrow> features p AND IORING_FEAT_SINGLE_MMAP \<noteq> 0"
  define ssz where "ssz = (if single then max (sq_ring_bytes p) (cq_ring_bytes p) else sq_ring_bytes p)"
  define csz where "csz = (if single then ssz else cq_ring_bytes p)"
  define prot where "prot = PROT_READ OR PROT_WRITE"
  define flgs where "flgs = MAP_SHARED OR MAP_POPULATE"
  define r1 where "r1 = mmap_ret w (trace w) 0 ssz prot flgs fd IORING_OFF_SQ_RING"
  define e1 where "e1 = Mmap 0 ssz prot flgs fd IORING_OFF_SQ_RING r1"
  define w1 where "w1 = w\<lparr>trace := trace w @ [e1]\<rparr>"
  define sq1 where "sq1 = sq\<lparr>sq_ring_sz := ssz, sq_ring_ptr := r1\<rparr>"
  define cq1 where "cq1 = cq\<lparr>cq_ring_sz := csz\<rparr>"
  define r2 where "r2 = mmap_ret w (trace w1) 0 csz prot flgs fd IORING_OFF_CQ_RING"
  define e2 where "e2 = Mmap 0 csz prot flgs fd IORING_OFF_CQ_RING r2"
  define w2 where "w2 = w1\<lparr>trace := trace w1 @ [e2]\<rparr>"
  note defs = single_def ssz_def csz_def prot_def flgs_def r1_def e1_def w1_def
    sq1_def cq1_def r2_def e2_def w2_def sq_ring_bytes_def cq_ring_bytes_def max_def
  have ring1: "is_ring_mmap e1" by (simp add: e1_def)
  have ring2: "is_ring_mmap e2" by (simp add: e2_def)
  show ?thesis
  proof (cases "IS_ERR r1")
    case True
    then have "io_uring_mmap w fd p sq cq = (int_of_long (PTR_ERR r1), sq1, cq1, w1)"
      by (auto simp add: io_uring_mmap_def Let_def uring_mmap_def defs split: if_splits)
    with call have "sq' = sq1" "cq' = cq1" "w' = w1" by simp_all
    then show ?thesis
      using True ring1
      by (intro exI [of _ "[e1]"])
         (simp add: w1_def sq1_def cq1_def e1_def ssz_def csz_def single_def prot_def flgs_def)
  next
    case ok1: False
    show ?thesis
    proof (cases single)
      case True
      have "io_uring_mmap w fd p sq cq
              = io_uring_mmap_sqes w1 fd p sq1 (cq1\<lparr>cq_ring_ptr := r1\<rparr>)"
        using ok1 True
        by (auto simp add: io_uring_mmap_def Let_def uring_mmap_def defs split: if_splits)
      with call have c: "io_uring_mmap_sqes w1 fd p sq1 (cq1\<lparr>cq_ring_ptr := r1\<rparr>)
                          = (ret, sq', cq', w')" by simp
      from mmap_sqes_regions [OF c] obtain evs where
        evs: "trace w' = trace w1 @ evs" "filter is_ring_mmap evs = []"
          "sq_ring_sz sq' = ssz" "sq_ring_ptr sq' = r1" "cq_ring_sz cq' = csz"
          "cq_ring_ptr cq' = r1"
        by (auto simp: sq1_def cq1_def)
      then show ?thesis
        using True ring1
        by (intro exI [of _ "e1 # evs"])
           (simp add: w1_def e1_def ssz_def csz_def single_def prot_def flgs_def)
    next
      case dual: False
      show ?thesis
      proof (cases "IS_ERR r2")
        case True
        have "io_uring_mmap w fd p sq cq
                = io_uring_mmap_err w2 sq1 (cq1\<lparr>cq_ring_ptr := 0\<rparr>) (int_of_long (PTR_ERR r2))"
          using ok1 dual True
          by (auto simp add: io_uring_mmap_def Let_def uring_mmap_def defs split: if_splits)
        with call have s: "sq' = sq1" "cq' = cq1\<lparr>cq_ring_ptr := 0\<rparr>"
          and w': "w' = io_uring_unmap_rings w2 sq1 (cq1\<lparr>cq_ring_ptr := 0\<rparr>)"
          by (auto simp: io_uring_mmap_err_def)
        from unmap_rings_events [of w2 sq1 "cq1\<lparr>cq_ring_ptr := 0\<rparr>"]
        obtain evs where "trace w' = trace w2 @ evs" "filter is_ring_mmap evs = []"
          unfolding w' by auto
        then show ?thesis
          using True dual ok1 ring1 ring2 s
          by (intro exI [of _ "e1 # e2 # evs"])
             (auto simp add: w2_def w1_def sq1_def cq1_def e1_def e2_def ssz_def csz_def
               single_def prot_def flgs_def)
      next
        case ok2: False
        have "io_uring_mmap w fd p sq cq
                = io_uring_mmap_sqes w2 fd p sq1 (cq1\<lparr>cq_ring_ptr := r2\<rparr>)"
          using ok1 dual ok2
          by (auto simp add: io_uring_mmap_def Let_def uring_mmap_def defs split: if_splits)
        with call have c: "io_uring_mmap_sqes w2 fd p sq1 (cq1\<lparr>cq_ring_ptr := r2\<rparr>)
                            = (ret, sq', cq', w')" by simp
        from mmap_sqes_regions [OF c] obtain evs where
          evs: "trace w' = trace w2 @ evs" "filter is_ring_mmap evs = []"
            "sq_ring_sz sq' = ssz" "sq_ring_ptr sq' = r1" "cq_ring_sz cq' = csz"
            "cq_ring_ptr cq' = r2"
          by (auto simp: sq1_def cq1_def)
        then show ?thesis
          using ok2 dual ok1 ring1 ring2
          by (intro exI [of _ "e1 # e2 # evs"])
             (auto simp add: w2_def w1_def e1_def e2_def ssz_def csz_def
               single_def prot_def flgs_def)
      qed
    qed
  qed
qed

lemma single_call:
  "io_uring_mmap kernel_native 3 (params_8\<lparr>features := IORING_FEAT_SINGLE_MMAP\<rparr>) zero_sq zero_cq =
     (0,
      \<lparr>sq_khead = 0x7F0000000000, sq_ktail = 0x7F0000000000, sq_kring_mask = 0x7F0000000000,
         sq_kring_entries = 0x7F0000000000, sq_kflags = 0x7F0000000000,
         sq_kdropped = 0x7F0000000000, sq_array = 0x7F0000000040, sq_sqes = 0x7F0000200000,
         sq_ring_sz = 320, sq_ring_ptr = 0x7F0000000000\<rparr>,
      \<lparr>cq_khead = 0x7F0000000000, cq_ktail = 0x7F0000000000, cq_kring_mask = 0x7F0000000000,
         cq_kring_entries = 0x7F0000000000, cq_kflags = 0, cq_koverflow = 0x7F0000000000,
         cq_cqes = 0x7F0000000040, cq_ring_sz = 320, cq_ring_ptr = 0x7F0000000000\<rparr>,
      kernel_native\<lparr>trace :=
        [Mmap 0 320 3 0x8001 3 0 0x7F0000000000, Mmap 0 512 3 0x8001 3 0x10000000 0x7F0000200000]\<rparr>)"
  by (simp add: mmap_defs Let_def kernel_native_def params_8_def os_defs const_defs zero_defs)

lemma dual_call:
  "io_uring_mmap kernel_native 3 params_8 zero_sq zero_cq =
     (0,
      \<lparr>sq_khead = 0x7F0000000000, sq_ktail = 0x7F0000000000, sq_kring_mask = 0x7F0000000000,
         sq_kring_entries = 0x7F0000000000, sq_kflags = 0x7F0000000000,
         sq_kdropped = 0x7F0000000000, sq_array = 0x7F0000000040, sq_sqes = 0x7F0000200000,
         sq_ring_sz = 96, sq_ring_ptr = 0x7F0000000000\<rparr>,
      \<lparr>cq_khead = 0x7F0000100000, cq_ktail = 0x7F0000100000, cq_kring_mask = 0x7F0000100000,
         cq_kring_entries = 0x7F0000100000, cq_kflags = 0, cq_koverflow = 0x7F0000100000,
         cq_cqes = 0x7F0000100040, cq_ring_sz = 320, cq_ring_ptr = 0x7F0000100000\<rparr>,
      kernel_native\<lparr>trace :=
        [Mmap 0 96 3 0x8001 3 0 0x7F0000000000, Mmap 0 320 3 0x8001 3 0x8000000 0x7F0000100000,
         Mmap 0 512 3 0x8001 3 0x10000000 0x7F0000200000]\<rparr>)"
  by (simp add: mmap_defs Let_def kernel_native_def params_8_def os_defs const_defs zero_defs)

theorem io_uring_mmap_regions_witness:
  "(\<exists>evs. trace (snd (snd (snd (io_uring_mmap kernel_native 3
              (params_8\<lparr>features := IORING_FEAT_SINGLE_MMAP\<rparr>) zero_sq zero_cq))))
            = trace kernel_native @ evs \<and>
      filter is_ring_mmap evs = [Mmap 0 320 3 0x8001 3 0 0x7F0000000000]) \<and>
   (\<exists>evs. trace (snd (snd (snd (io_uring_mmap kernel_native 3 params_8 zero_sq zero_cq))))
            = trace kernel_native @ evs \<and>
      filter is_ring_mmap evs =
        [Mmap 0 96 3 0x8001 3 0 0x7F0000000000, Mmap 0 320 3 0x8001 3 0x8000000 0x7F0000100000])"
  unfolding single_call dual_call
  using io_uring_mmap_regions [OF single_call] io_uring_mmap_regions [OF dual_call]
  by (auto simp add: params_8_def zero_defs sq_ring_bytes_def cq_ring_bytes_def const_defs IS_ERR_def
      split: if_splits)

section \<open>Caller-supplied memory\<close>

text \<open>
  Claim C9, at a request of 1024 entries with a buffer of 2 MiB supplied by the caller
  and pages of 4096 bytes. The call reports 77824 bytes used. The layout it has just
  made needs 102400 bytes: the same call on a buffer of 77824 bytes, or of 102399
  bytes, fails with \<open>- ENOMEM\<close>, and a buffer of 102400 bytes is accepted. The sum for the report counts
  4 bytes for every completion entry where the layout has 16.
\<close>

theorem io_uring_alloc_huge_under_reports:
  "fst (io_uring_alloc_huge kernel_refuses 1024 (zero_params\<lparr>flags := IORING_SETUP_NO_MMAP\<rparr>)
          zero_sq zero_cq 0x200000 0x200000) = 77824 \<and>
   fst (io_uring_alloc_huge kernel_refuses 1024 (zero_params\<lparr>flags := IORING_SETUP_NO_MMAP\<rparr>)
          zero_sq zero_cq 0x200000 77824) = - ENOMEM \<and>
   fst (io_uring_alloc_huge kernel_refuses 1024 (zero_params\<lparr>flags := IORING_SETUP_NO_MMAP\<rparr>)
          zero_sq zero_cq 0x200000 102399) = - ENOMEM \<and>
   fst (io_uring_alloc_huge kernel_refuses 1024 (zero_params\<lparr>flags := IORING_SETUP_NO_MMAP\<rparr>)
          zero_sq zero_cq 0x200000 102400) = 77824"
  by (simp add: io_uring_alloc_huge_def io_uring_alloc_huge_used_def negotiate_1024_no_mmap
      Let_def kernel_refuses_def memset0_def sizeof_unsigned_def sizeof_io_uring_sqe_def
      sizeof_io_uring_cqe_def)

text \<open>
  Claim C1, at a ring of depth 8 created by \<^verbatim>\<open>io_uring_queue_init_mem\<close> in a buffer of
  2 MiB at address \<open>0x200000\<close>. The handle carries \<^verbatim>\<open>IORING_INT_FLAG_APP_MEM\<close>, and
  \<^verbatim>\<open>io_uring_queue_exit\<close> closes the descriptor and then unmaps the buffer of the caller.
\<close>

theorem io_uring_queue_exit_unmaps_app_mem:
  "(case io_uring_queue_init_mem kernel_native 8 zero_ring zero_params 0x200000 0x200000 of
      (ret, ring, p, w) \<Rightarrow>
        ret = 8192 \<and> internal_flags ring = IORING_INT_FLAG_APP_MEM \<and>
        sq_sqes (ring_sq ring) = 0x200000 \<and>
        trace (io_uring_queue_exit w ring) = trace w @ [Close 3, Munmap 0x200000 huge_page_size])"
  by (simp add: io_uring_queue_init_mem_def io_uring_queue_init_params0_def
      io_uring_queue_init_params_create_def io_uring_alloc_huge_def
      io_uring_alloc_huge_used_def io_uring_setup_ring_pointers_def io_uring_queue_exit_def
      io_uring_unmap_rings_def get_sq_cq_entries_def roundup_pow2_def fls_eq bit_len.simps
      Let_def kernel_native_def os_defs const_defs zero_defs)

text \<open>
  When the library has mapped the memory itself and ring creation fails, the mapping is
  released before the error is returned: nothing stays resident.
\<close>

lemma own_memory_released_on_failure:
  "(case io_uring_queue_init_params0 kernel_one_mapping 8 zero_ring
           (zero_params\<lparr>flags := IORING_SETUP_NO_MMAP\<rparr>) 0 0 of
      (ret, ring, p, w) \<Rightarrow>
        ret = - 12 \<and> internal_flags ring = 0 \<and>
        trace w = [Mmap 0 huge_page_size 3 0x40021 (- 1) 0 0x7F0000000000,
                   Memset 0x7F0000000000 huge_page_size, Setup 8 p (- 12),
                   Munmap 0x7F0000000000 huge_page_size] \<and>
        resident (trace w) = [])"
  by (simp add: io_uring_queue_init_params0_def
      io_uring_queue_init_params_create_def io_uring_alloc_huge_def
      io_uring_alloc_huge_used_def io_uring_unmap_rings_def
      get_sq_cq_entries_def roundup_pow2_def fls_eq bit_len.simps
      Let_def kernel_one_mapping_def os_defs const_defs zero_defs resident_def)

text \<open>
  Claim C2, at the same request on a kernel whose ring creation fails. The handle
  carries \<^verbatim>\<open>IORING_INT_FLAG_APP_MEM\<close> in \<^verbatim>\<open>internal_flags\<close>; the unwinding tests \<^verbatim>\<open>flags\<close>,
  which is still zero, and unmaps the buffer of the caller.
\<close>

theorem io_uring_queue_init_mem_failure_unmaps_app_mem:
  "(case io_uring_queue_init_mem kernel_refuses 8 zero_ring zero_params 0x200000 0x200000 of
      (ret, ring, p, w) \<Rightarrow>
        ret = - 12 \<and> internal_flags ring = IORING_INT_FLAG_APP_MEM \<and>
        sq_sqes (ring_sq ring) = 0x200000 \<and>
        trace w = [Memset 0x200000 0x200000, Setup 8 p (- 12), Munmap 0x200000 huge_page_size])"
  by (simp add: io_uring_queue_init_mem_def io_uring_queue_init_params0_def
      io_uring_queue_init_params_create_def io_uring_alloc_huge_def
      io_uring_alloc_huge_used_def io_uring_unmap_rings_def
      get_sq_cq_entries_def roundup_pow2_def fls_eq bit_len.simps
      Let_def kernel_refuses_def os_defs const_defs zero_defs)

end
